theory Spec2Isabelle
  imports Main "HOL-Library.Multiset"
begin

section \<open>Time interval utilities (src/lib/time.utils.ts)\<close>

text \<open>
  A time of day is the string the request carries (\<open>"HH:MM"\<close>). JavaScript numbers that
  come out of \<open>Number\<close> are modelled as \<open>nat option\<close>, \<open>None\<close> standing for \<open>NaN\<close>.
  \<open>Number\<close> is modelled on strings of ASCII decimal digits (the empty string is 0, as in
  JavaScript); every other spelling (sign, fraction, exponent, blanks, hex) is mapped to
  \<open>NaN\<close> here, so statements that depend on the numeric value of a time are made for
  strings that pass \<open>isValidTimeFormat\<close>, where the model is exact.
\<close>

datatype DayOfWeek = MONDAY | TUESDAY | WEDNESDAY | THURSDAY | FRIDAY | SATURDAY | SUNDAY

definition isDigit :: "char \<Rightarrow> bool" where
  "isDigit c = (48 \<le> (of_char c :: nat) \<and> (of_char c :: nat) \<le> 57)"

definition digitValue :: "char \<Rightarrow> nat" where
  "digitValue c = (of_char c :: nat) - 48"

fun digitsValue :: "nat \<Rightarrow> string \<Rightarrow> nat option" where
  "digitsValue acc [] = Some acc"
| "digitsValue acc (c # cs) =
     (if isDigit c then digitsValue (acc * 10 + digitValue c) cs else None)"

definition Number :: "string \<Rightarrow> nat option" where
  "Number s = digitsValue 0 s"

text \<open>\<open>time.split(':')\<close>: the pieces between the colons, at least one piece.\<close>

fun splitColon :: "string \<Rightarrow> string list" where
  "splitColon [] = [[]]"
| "splitColon (c # cs) =
     (if c = CHR '':'' then [] # splitColon cs
      else (case splitColon cs of
              [] \<Rightarrow> [[c]]
            | w # ws \<Rightarrow> (c # w) # ws))"

text \<open>The regular expression \<open>/^\d{2}:\d{2}$/\<close>.\<close>

definition matchesHHMM :: "string \<Rightarrow> bool" where
  "matchesHHMM time =
     (case time of
        [a, b, c, d, e] \<Rightarrow> isDigit a \<and> isDigit b \<and> c = CHR '':'' \<and> isDigit d \<and> isDigit e
      | _ \<Rightarrow> False)"

text \<open>
  \<open>const [hours, minutes] = time.split(':').map(Number)\<close>: a missing second piece is
  \<open>undefined\<close>, which makes every arithmetic result and comparison below \<open>NaN\<close>/false.
\<close>

definition hoursMinutes :: "string \<Rightarrow> nat option \<times> nat option" where
  "hoursMinutes time =
     (case map Number (splitColon time) of
        [] \<Rightarrow> (None, None)
      | [h] \<Rightarrow> (h, None)
      | h # m # _ \<Rightarrow> (h, m))"

definition isValidTimeFormat :: "string \<Rightarrow> bool" where
  "isValidTimeFormat time =
     (if \<not> matchesHHMM time then False
      else (case hoursMinutes time of
              (Some hours, Some minutes) \<Rightarrow> hours \<le> 23 \<and> minutes \<le> 59
            | _ \<Rightarrow> False))"

definition timeToMinutes :: "string \<Rightarrow> nat option" where
  "timeToMinutes time =
     (case hoursMinutes time of
        (Some hours, Some minutes) \<Rightarrow> Some (hours * 60 + minutes)
      | _ \<Rightarrow> None)"

definition doTimeSlotsOverlap :: "string \<Rightarrow> string \<Rightarrow> string \<Rightarrow> string \<Rightarrow> bool" where
  "doTimeSlotsOverlap t1Start t1End t2Start t2End =
     (case (timeToMinutes t1Start, timeToMinutes t1End,
            timeToMinutes t2Start, timeToMinutes t2End) of
        (Some start1, Some end1, Some start2, Some end2) \<Rightarrow>
          max start1 start2 < min end1 end2
      | _ \<Rightarrow> False)"

text \<open>
  A \<open>Date\<close> is its time value: milliseconds since 1970-01-01T00:00:00Z, a Thursday.
  \<open>getUTCDay\<close> is 0 for Sunday up to 6 for Saturday.
\<close>

type_synonym Date = int

definition msPerDay :: int where
  "msPerDay = 86400000"

definition getUTCDay :: "Date \<Rightarrow> nat" where
  "getUTCDay d = nat ((d div msPerDay + 4) mod 7)"

definition getDayOfWeekFromDate :: "Date \<Rightarrow> DayOfWeek" where
  "getDayOfWeekFromDate d =
     [SUNDAY, MONDAY, TUESDAY, WEDNESDAY, THURSDAY, FRIDAY, SATURDAY] ! getUTCDay d"

text \<open>
  \<open>new Date(Date.UTC(d.getUTCFullYear(), d.getUTCMonth(), d.getUTCDate()))\<close>: the
  midnight (UTC) that starts the day of \<open>d\<close>, except that \<open>Date.UTC\<close> reads a year from
  0 to 99 as 1900 plus that year. Days are counted from 1970-01-01: 0000-01-01 is day
  -719528, 0100-01-01 is day -683003 and 1900-01-01 is day -25567.

  \<open>twoDigitYearDay n\<close> is the day \<open>Date.UTC(y, m, d)\<close> denotes for the date \<open>(y, m, d)\<close>
  that lies \<open>n\<close> days after 0000-01-01, for \<open>0 \<le> n < 36525\<close> (the years 0 to 99). Year 0
  has 366 days and 1900 has 365: 29 February and 1 March of year 0 both become
  1 March 1900. The years 1 to 99 come in groups of four (1461 days) ending in a leap
  year, as the years 1901 to 1999 do, so the day of the year is kept.
\<close>

definition daysYear0 :: int where
  "daysYear0 = - 719528"

definition daysYear100 :: int where
  "daysYear100 = - 683003"

definition daysYear1900 :: int where
  "daysYear1900 = - 25567"

definition twoDigitYearDay :: "int \<Rightarrow> int" where
  "twoDigitYearDay n =
     (if n < 366 then daysYear1900 + (if n \<le> 59 then n else n - 1)
      else
        let k = n - 366; c = k div 1461; r = k mod 1461; i = min (r div 365) 3;
            y = 4 * c + 1 + i; dayOfYear = r - 365 * i
        in daysYear1900 + 365 * y + (y - 1) div 4 + dayOfYear)"

definition utcMidnight :: "Date \<Rightarrow> Date" where
  "utcMidnight d =
     (let day = d div msPerDay in
      if daysYear0 \<le> day \<and> day < daysYear100
      then twoDigitYearDay (day - daysYear0) * msPerDay
      else day * msPerDay)"

section \<open>Data model and the schedule store\<close>

text \<open>
  The rows of the \<open>User\<close> and \<open>TimetableSlot\<close> tables, with the columns the timetable
  controllers read and write (the \<open>createdAt\<close>/\<open>updatedAt\<close> timestamps are left out).
  Ids are strings; a nullable column is an \<open>option\<close>. The \<open>date\<close> column holds a UTC
  midnight. \<open>findMany\<close> returns rows in table order.
\<close>

datatype Role = ADMIN | TEACHER | PARENT

record User =
  userName :: string
  userRole :: Role

record TimetableSlot =
  slotId :: string
  dayOfWeek :: DayOfWeek
  startTime :: string
  endTime :: string
  currentClass :: string
  slotSection :: "string option"
  subject :: string
  teacherId :: "string option"
  substituteTeacherId :: "string option"
  date :: "Date option"

record Db =
  users :: "string \<Rightarrow> User option"
  timetableSlots :: "TimetableSlot list"

text \<open>The columns a create or an update of the slot scheduler writes (\<open>slotData\<close>).\<close>

record SlotData =
  d_dayOfWeek :: DayOfWeek
  d_startTime :: string
  d_endTime :: string
  d_currentClass :: string
  d_section :: "string option"
  d_subject :: string
  d_teacherId :: "string option"
  d_date :: "Date option"

datatype PrismaError = P2002 | P2025

text \<open>\<open>prisma.user.findFirst({ where: { id, role: Role.TEACHER } })\<close>\<close>

definition findTeacher :: "Db \<Rightarrow> string \<Rightarrow> User option" where
  "findTeacher db uid =
     (case users db uid of
        None \<Rightarrow> None
      | Some u \<Rightarrow> if userRole u = TEACHER then Some u else None)"

text \<open>\<open>prisma.timetableSlot.findUnique({ where: { id } })\<close>\<close>

definition findUnique :: "Db \<Rightarrow> string \<Rightarrow> TimetableSlot option" where
  "findUnique db i = find (\<lambda>r. slotId r = i) (timetableSlots db)"

text \<open>
  The unique index of the migration \<open>add_date_to_timetable_slot\<close> on
  \<open>(dayOfWeek, startTime, currentClass, section, subject, date)\<close>. PostgreSQL treats
  NULLs as distinct in a unique index, so two rows collide only when \<open>section\<close> and
  \<open>date\<close> are both set and equal.
\<close>

definition sameUniqueKey :: "TimetableSlot \<Rightarrow> TimetableSlot \<Rightarrow> bool" where
  "sameUniqueKey a b =
     (dayOfWeek a = dayOfWeek b \<and> startTime a = startTime b \<and>
      currentClass a = currentClass b \<and> subject a = subject b \<and>
      (case (slotSection a, slotSection b) of (Some x, Some y) \<Rightarrow> x = y | _ \<Rightarrow> False) \<and>
      (case (date a, date b) of (Some x, Some y) \<Rightarrow> x = y | _ \<Rightarrow> False))"

text \<open>
  The store assigns each created row an id no other row has; the model takes a string
  longer than every id in the table.
\<close>

definition newId :: "TimetableSlot list \<Rightarrow> string" where
  "newId rows = replicate (Suc (foldr (\<lambda>r n. max (length (slotId r)) n) rows 0)) CHR ''c''"

definition newRow :: "string \<Rightarrow> SlotData \<Rightarrow> TimetableSlot" where
  "newRow i d =
     \<lparr>slotId = i, dayOfWeek = d_dayOfWeek d, startTime = d_startTime d,
      endTime = d_endTime d, currentClass = d_currentClass d, slotSection = d_section d,
      subject = d_subject d, teacherId = d_teacherId d, substituteTeacherId = None,
      date = d_date d\<rparr>"

text \<open>\<open>prisma.timetableSlot.create({ data })\<close>\<close>

definition createSlot :: "Db \<Rightarrow> SlotData \<Rightarrow> PrismaError + (Db \<times> TimetableSlot)" where
  "createSlot db d =
     (let row = newRow (newId (timetableSlots db)) d in
      if list_ex (\<lambda>r. sameUniqueKey r row) (timetableSlots db) then Inl P2002
      else Inr (db\<lparr>timetableSlots := timetableSlots db @ [row]\<rparr>, row))"

definition writeSlotData :: "SlotData \<Rightarrow> TimetableSlot \<Rightarrow> TimetableSlot" where
  "writeSlotData d r =
     r\<lparr>dayOfWeek := d_dayOfWeek d, startTime := d_startTime d, endTime := d_endTime d,
       currentClass := d_currentClass d, slotSection := d_section d, subject := d_subject d,
       teacherId := d_teacherId d, date := d_date d\<rparr>"

text \<open>\<open>prisma.timetableSlot.update({ where: { id }, data })\<close>: P2025 when no row has the id.\<close>

definition updateSlot ::
  "Db \<Rightarrow> string \<Rightarrow> (TimetableSlot \<Rightarrow> TimetableSlot) \<Rightarrow> PrismaError + (Db \<times> TimetableSlot)" where
  "updateSlot db i patch =
     (case findUnique db i of
        None \<Rightarrow> Inl P2025
      | Some old \<Rightarrow>
          if list_ex (\<lambda>r. slotId r \<noteq> i \<and> sameUniqueKey r (patch old)) (timetableSlots db)
          then Inl P2002
          else Inr (db\<lparr>timetableSlots :=
                         map (\<lambda>r. if slotId r = i then patch r else r) (timetableSlots db)\<rparr>,
                    patch old))"

text \<open>\<open>tx.timetableSlot.deleteMany({ where: { date } })\<close>\<close>

definition deleteManyByDate :: "Db \<Rightarrow> Date \<Rightarrow> Db" where
  "deleteManyByDate db d =
     db\<lparr>timetableSlots := filter (\<lambda>r. date r \<noteq> Some d) (timetableSlots db)\<rparr>"

section \<open>Requests and responses\<close>

text \<open>
  A response is \<open>res.status(n).json(body)\<close>, or the error handed to \<open>next\<close>. Messages are
  modelled by their kind; a 400 is the spec's ValidationError, a 404 its NotFoundError and
  a 409 its ConflictError. Dates in a response body are left as stored (the source prints
  them as \<open>YYYY-MM-DD\<close>).
\<close>

datatype Message =
    RequiredFieldsMissing
  | InvalidDayOfWeek
  | InvalidTimeFormat
  | StartNotBeforeEnd
  | TeacherNotFound
  | TeacherConflict
  | ClassSectionConflict
  | ExactSlotExists
  | DateAndSlotsRequired
  | InvalidDateFormat
  | SlotFieldsMissing
  | TeacherConflictWithin
  | ClassSectionConflictWithin
  | SlotConflictOccurred
  | AlternateTimetableSet
  | ClassRequired
  | InvalidQueryDate
  | SlotAndSubstituteRequired
  | SlotIdRequired
  | SlotNotFound
  | NotAValidSubstitute
  | OwnSlot
  | SubstituteConflict
  | SubstituteAssigned
  | SubstituteCleared

record TeacherSlotView =
  v_slot :: TimetableSlot
  isSubstituteAssignment :: bool
  originalTeacherName :: "string option"
  teachingTeacherName :: "string option"

datatype Body =
    Msg Message
  | MsgSlot Message TimetableSlot
  | MsgSlots Message "TimetableSlot list"
  | OneSlot TimetableSlot
  | SlotList "TimetableSlot list"
  | TeacherSlotList "TeacherSlotView list"

datatype Response = Json nat Body | NextError

text \<open>JavaScript truthiness of an optional string, and \<open>x || null\<close>.\<close>

definition truthy :: "string option \<Rightarrow> bool" where
  "truthy x = (case x of None \<Rightarrow> False | Some s \<Rightarrow> s \<noteq> [])"

definition orNull :: "string option \<Rightarrow> string option" where
  "orNull x = (if truthy x then x else None)"

text \<open>\<open>a >= b\<close> on numbers: false when either is \<open>NaN\<close>.\<close>

definition geqNumber :: "nat option \<Rightarrow> nat option \<Rightarrow> bool" where
  "geqNumber a b = (case (a, b) of (Some x, Some y) \<Rightarrow> y \<le> x | _ \<Rightarrow> False)"

text \<open>\<open>Object.values(DayOfWeek).includes(dayOfWeek)\<close>\<close>

definition dayOfWeekNamed :: "string \<Rightarrow> DayOfWeek option" where
  "dayOfWeekNamed s =
     (if s = ''MONDAY'' then Some MONDAY
      else if s = ''TUESDAY'' then Some TUESDAY
      else if s = ''WEDNESDAY'' then Some WEDNESDAY
      else if s = ''THURSDAY'' then Some THURSDAY
      else if s = ''FRIDAY'' then Some FRIDAY
      else if s = ''SATURDAY'' then Some SATURDAY
      else if s = ''SUNDAY'' then Some SUNDAY
      else None)"

section \<open>Slot scheduler (admin.controller.ts, createOrUpdateTimetableSlot)\<close>

text \<open>
  The request body. A missing or \<open>null\<close> property is \<open>None\<close>. The JavaScript \<open>Date\<close>
  constructor is a parameter \<open>parseDate\<close> of the controllers: the time value of
  \<open>new Date(s)\<close>, \<open>None\<close> for an invalid date.
\<close>

record TimetableSlotPayload =
  p_id :: "string option"
  p_dayOfWeek :: "string option"
  p_startTime :: "string option"
  p_endTime :: "string option"
  p_currentClass :: "string option"
  p_section :: "string option"
  p_subject :: "string option"
  p_teacherId :: "string option"
  p_date :: "string option"

text \<open>\<open>id: id ? { not: id } : undefined\<close>\<close>

definition notId :: "string option \<Rightarrow> TimetableSlot \<Rightarrow> bool" where
  "notId i r = (case i of None \<Rightarrow> True | Some x \<Rightarrow> if x = [] then True else slotId r \<noteq> x)"

text \<open>The loop \<open>for (const existingSlot of ...) if (doTimeSlotsOverlap(...)) return ...\<close>\<close>

definition firstOverlapping :: "string \<Rightarrow> string \<Rightarrow> TimetableSlot list \<Rightarrow> TimetableSlot option" where
  "firstOverlapping startT endT rows =
     find (\<lambda>existingSlot.
             doTimeSlotsOverlap (startTime existingSlot) (endTime existingSlot) startT endT) rows"

definition conflictingTeacherSlots ::
  "Db \<Rightarrow> string \<Rightarrow> DayOfWeek \<Rightarrow> string option \<Rightarrow> TimetableSlot list" where
  "conflictingTeacherSlots db t day i =
     filter (\<lambda>r. teacherId r = Some t \<and> dayOfWeek r = day \<and> notId i r) (timetableSlots db)"

definition conflictingClassSlots ::
  "Db \<Rightarrow> string \<Rightarrow> string option \<Rightarrow> DayOfWeek \<Rightarrow> string option \<Rightarrow> TimetableSlot list" where
  "conflictingClassSlots db cls sect day i =
     filter (\<lambda>r. currentClass r = cls \<and> slotSection r = orNull sect \<and> dayOfWeek r = day \<and>
                  notId i r) (timetableSlots db)"

text \<open>
  The write at the end of the handler and its \<open>catch\<close>: P2002 on the unique index is the
  409 "this exact subject slot already exists"; any other error goes to \<open>next\<close>.
\<close>

definition persistSlot :: "Db \<Rightarrow> string option \<Rightarrow> SlotData \<Rightarrow> Db \<times> Response" where
  "persistSlot db i slotData =
     (if truthy i then
        (case updateSlot db (the i) (writeSlotData slotData) of
           Inl P2002 \<Rightarrow> (db, Json 409 (Msg ExactSlotExists))
         | Inl _ \<Rightarrow> (db, NextError)
         | Inr (db', slot) \<Rightarrow> (db', Json 200 (OneSlot slot)))
      else
        (case createSlot db slotData of
           Inl P2002 \<Rightarrow> (db, Json 409 (Msg ExactSlotExists))
         | Inl _ \<Rightarrow> (db, NextError)
         | Inr (db', slot) \<Rightarrow> (db', Json 201 (OneSlot slot))))"

definition createOrUpdateTimetableSlot ::
  "(string \<Rightarrow> Date option) \<Rightarrow> Db \<Rightarrow> TimetableSlotPayload \<Rightarrow> Db \<times> Response" where
  "createOrUpdateTimetableSlot parseDate db body =
     (if \<not> truthy (p_dayOfWeek body) \<or> \<not> truthy (p_startTime body) \<or>
         \<not> truthy (p_endTime body) \<or> \<not> truthy (p_currentClass body) \<or>
         \<not> truthy (p_subject body)
      then (db, Json 400 (Msg RequiredFieldsMissing))
      else
        let startT = the (p_startTime body); endT = the (p_endTime body);
            cls = the (p_currentClass body); subj = the (p_subject body) in
        (case dayOfWeekNamed (the (p_dayOfWeek body)) of
           None \<Rightarrow> (db, Json 400 (Msg InvalidDayOfWeek))
         | Some day \<Rightarrow>
             if \<not> isValidTimeFormat startT \<or> \<not> isValidTimeFormat endT
             then (db, Json 400 (Msg InvalidTimeFormat))
             else if geqNumber (timeToMinutes startT) (timeToMinutes endT)
             then (db, Json 400 (Msg StartNotBeforeEnd))
             else
               let teacher = orNull (p_teacherId body); sect = orNull (p_section body) in
               if (case teacher of None \<Rightarrow> False | Some t \<Rightarrow> findTeacher db t = None)
               then (db, Json 400 (Msg TeacherNotFound))
               else
                 (case (case teacher of
                          None \<Rightarrow> None
                        | Some t \<Rightarrow>
                            firstOverlapping startT endT
                              (conflictingTeacherSlots db t day (p_id body))) of
                    Some existingSlot \<Rightarrow> (db, Json 409 (MsgSlot TeacherConflict existingSlot))
                  | None \<Rightarrow>
                      (case firstOverlapping startT endT
                              (conflictingClassSlots db cls sect day (p_id body)) of
                         Some existingSlot \<Rightarrow>
                           (db, Json 409 (MsgSlot ClassSectionConflict existingSlot))
                       | None \<Rightarrow>
                           if truthy (p_date body) then
                             (case parseDate (the (p_date body)) of
                                None \<Rightarrow> (db, NextError)
                              | Some d \<Rightarrow>
                                  persistSlot db (p_id body)
                                    \<lparr>d_dayOfWeek = day, d_startTime = startT, d_endTime = endT,
                                     d_currentClass = cls, d_section = sect, d_subject = subj,
                                     d_teacherId = teacher, d_date = Some (utcMidnight d)\<rparr>)
                           else
                             persistSlot db (p_id body)
                               \<lparr>d_dayOfWeek = day, d_startTime = startT, d_endTime = endT,
                                d_currentClass = cls, d_section = sect, d_subject = subj,
                                d_teacherId = teacher, d_date = None\<rparr>))))"

section \<open>Alternate-day scheduler (admin.controller.ts, setAlternateTimetable)\<close>

record AlternateSlotInput =
  a_startTime :: "string option"
  a_endTime :: "string option"
  a_currentClass :: "string option"
  a_section :: "string option"
  a_subject :: "string option"
  a_teacherId :: "string option"

text \<open>\<open>ap_slots\<close> is \<open>None\<close> when the body has no array under \<open>slots\<close>.\<close>

record AlternateTimetablePayload =
  ap_date :: "string option"
  ap_slots :: "AlternateSlotInput list option"

text \<open>The regular expression \<open>/^\d{4}-\d{2}-\d{2}$/\<close>.\<close>

definition matchesYMD :: "string \<Rightarrow> bool" where
  "matchesYMD s =
     (case s of
        [y1, y2, y3, y4, h1, m1, m2, h2, d1, d2] \<Rightarrow>
          isDigit y1 \<and> isDigit y2 \<and> isDigit y3 \<and> isDigit y4 \<and> h1 = CHR ''-'' \<and>
          isDigit m1 \<and> isDigit m2 \<and> h2 = CHR ''-'' \<and> isDigit d1 \<and> isDigit d2
      | _ \<Rightarrow> False)"

text \<open>
  The body of the validation loop on one input: the message of the 400 it returns, if
  any. \<open>teacherId\<close> and \<open>section\<close> are read with the empty string replaced by \<open>null\<close>.
\<close>

definition validateAlternateSlot :: "Db \<Rightarrow> AlternateSlotInput \<Rightarrow> Message option" where
  "validateAlternateSlot db slotData =
     (if \<not> truthy (a_startTime slotData) \<or> \<not> truthy (a_endTime slotData) \<or>
         \<not> truthy (a_currentClass slotData) \<or> \<not> truthy (a_subject slotData)
      then Some SlotFieldsMissing
      else if \<not> isValidTimeFormat (the (a_startTime slotData)) \<or>
              \<not> isValidTimeFormat (the (a_endTime slotData))
      then Some InvalidTimeFormat
      else if geqNumber (timeToMinutes (the (a_startTime slotData)))
                        (timeToMinutes (the (a_endTime slotData)))
      then Some StartNotBeforeEnd
      else if (case orNull (a_teacherId slotData) of
                 None \<Rightarrow> False
               | Some t \<Rightarrow> findTeacher db t = None)
      then Some TeacherNotFound
      else None)"

text \<open>
  A checked input as the transaction reads it, together with the day and the date every
  created row gets.
\<close>

definition checkedSlotData :: "DayOfWeek \<Rightarrow> Date \<Rightarrow> AlternateSlotInput \<Rightarrow> SlotData" where
  "checkedSlotData day d slotData =
     \<lparr>d_dayOfWeek = day, d_startTime = the (a_startTime slotData),
      d_endTime = the (a_endTime slotData),
      d_currentClass = the (a_currentClass slotData),
      d_section = orNull (a_section slotData),
      d_subject = the (a_subject slotData),
      d_teacherId = orNull (a_teacherId slotData),
      d_date = Some d\<rparr>"

text \<open>The validation loop: the first failure, or all the checked inputs.\<close>

fun validateAlternateSlots ::
  "Db \<Rightarrow> DayOfWeek \<Rightarrow> Date \<Rightarrow> AlternateSlotInput list \<Rightarrow> Message + SlotData list" where
  "validateAlternateSlots db day d [] = Inr []"
| "validateAlternateSlots db day d (slotData # rest) =
     (case validateAlternateSlot db slotData of
        Some m \<Rightarrow> Inl m
      | None \<Rightarrow>
          (case validateAlternateSlots db day d rest of
             Inl m \<Rightarrow> Inl m
           | Inr checked \<Rightarrow> Inr (checkedSlotData day d slotData # checked)))"

text \<open>
  The two filters over the payload. \<open>s !== slotData\<close> compares object identity; the
  inputs are the distinct objects of the parsed array, so it is a comparison of positions.
\<close>

definition teacherConflictInPayload ::
  "SlotData list \<Rightarrow> nat \<Rightarrow> SlotData \<Rightarrow> (nat \<times> SlotData) list" where
  "teacherConflictInPayload alternateSlotsData i slotData =
     filter (\<lambda>(j, s). truthy (d_teacherId s) \<and> d_teacherId s = d_teacherId slotData \<and> j \<noteq> i \<and>
                       doTimeSlotsOverlap (d_startTime s) (d_endTime s)
                         (d_startTime slotData) (d_endTime slotData))
       (enumerate 0 alternateSlotsData)"

definition classConflictInPayload ::
  "SlotData list \<Rightarrow> nat \<Rightarrow> SlotData \<Rightarrow> (nat \<times> SlotData) list" where
  "classConflictInPayload alternateSlotsData i slotData =
     filter (\<lambda>(j, s). d_currentClass s = d_currentClass slotData \<and>
                       orNull (d_section s) = orNull (d_section slotData) \<and> j \<noteq> i \<and>
                       doTimeSlotsOverlap (d_startTime s) (d_endTime s)
                         (d_startTime slotData) (d_endTime slotData))
       (enumerate 0 alternateSlotsData)"

text \<open>
  The loop inside the transaction, after the \<open>deleteMany\<close>. \<open>Inl\<close> is the response the
  \<open>catch\<close> gives to the error thrown: the two payload conflicts and P2002 are 409s.
\<close>

fun createAlternateSlots ::
  "SlotData list \<Rightarrow> (nat \<times> SlotData) list \<Rightarrow> Db \<Rightarrow> TimetableSlot list \<Rightarrow>
     Response + (Db \<times> TimetableSlot list)" where
  "createAlternateSlots alternateSlotsData [] tx newSlots = Inr (tx, newSlots)"
| "createAlternateSlots alternateSlotsData ((i, slotData) # rest) tx newSlots =
     (if teacherConflictInPayload alternateSlotsData i slotData \<noteq> []
      then Inl (Json 409 (Msg TeacherConflictWithin))
      else if classConflictInPayload alternateSlotsData i slotData \<noteq> []
      then Inl (Json 409 (Msg ClassSectionConflictWithin))
      else (case createSlot tx slotData of
              Inl P2002 \<Rightarrow> Inl (Json 409 (Msg SlotConflictOccurred))
            | Inl _ \<Rightarrow> Inl NextError
            | Inr (tx', created) \<Rightarrow>
                createAlternateSlots alternateSlotsData rest tx' (newSlots @ [created])))"

text \<open>
  \<open>prisma.$transaction\<close> commits the writes of its callback when it returns and rolls
  them back when it throws: the callback runs on \<open>tx\<close>, and the database becomes \<open>tx\<close>
  only on \<open>Inr\<close>.
\<close>

definition setAlternateTimetable ::
  "(string \<Rightarrow> Date option) \<Rightarrow> Db \<Rightarrow> AlternateTimetablePayload \<Rightarrow> Db \<times> Response" where
  "setAlternateTimetable parseDate db body =
     (if \<not> truthy (ap_date body) \<or> ap_slots body = None
      then (db, Json 400 (Msg DateAndSlotsRequired))
      else
        let dateString = the (ap_date body) in
        (case parseDate dateString of
           None \<Rightarrow> (db, Json 400 (Msg InvalidDateFormat))
         | Some alternateDate \<Rightarrow>
             if length dateString \<noteq> 10 \<or> \<not> matchesYMD dateString
             then (db, Json 400 (Msg InvalidDateFormat))
             else
               let normalizedAlternateDate = utcMidnight alternateDate;
                   dayOfWeekForAlternateDate = getDayOfWeekFromDate normalizedAlternateDate in
               (case validateAlternateSlots db dayOfWeekForAlternateDate
                       normalizedAlternateDate (the (ap_slots body)) of
                  Inl m \<Rightarrow> (db, Json 400 (Msg m))
                | Inr alternateSlotsData \<Rightarrow>
                    (case createAlternateSlots alternateSlotsData
                            (enumerate 0 alternateSlotsData)
                            (deleteManyByDate db normalizedAlternateDate) [] of
                       Inl r \<Rightarrow> (db, r)
                     | Inr (db', createdSlots) \<Rightarrow>
                         (db', Json 201 (MsgSlots AlternateTimetableSet createdSlots))))))"

section \<open>Effective schedule queries\<close>

text \<open>
  The comparator of the final \<open>sort\<close>: the difference of the day ranks when it is not
  zero, else the difference of the start minutes (\<open>None\<close> is \<open>NaN\<close>).
  \<open>Array.prototype.sort\<close> is stable and reads a \<open>NaN\<close> as 0; the model is the stable
  insertion sort.
\<close>

definition dayOrder :: "DayOfWeek \<Rightarrow> int" where
  "dayOrder day =
     (case day of MONDAY \<Rightarrow> 1 | TUESDAY \<Rightarrow> 2 | WEDNESDAY \<Rightarrow> 3 | THURSDAY \<Rightarrow> 4
      | FRIDAY \<Rightarrow> 5 | SATURDAY \<Rightarrow> 6 | SUNDAY \<Rightarrow> 7)"

definition compareSlots :: "TimetableSlot \<Rightarrow> TimetableSlot \<Rightarrow> int option" where
  "compareSlots a b =
     (let dayDiff = dayOrder (dayOfWeek a) - dayOrder (dayOfWeek b) in
      if dayDiff \<noteq> 0 then Some dayDiff
      else (case (timeToMinutes (startTime a), timeToMinutes (startTime b)) of
              (Some x, Some y) \<Rightarrow> Some (int x - int y)
            | _ \<Rightarrow> None))"

definition comesAfter :: "int option \<Rightarrow> bool" where
  "comesAfter c = (case c of None \<Rightarrow> False | Some n \<Rightarrow> 0 < n)"

fun insertSorted :: "('a \<Rightarrow> 'a \<Rightarrow> int option) \<Rightarrow> 'a \<Rightarrow> 'a list \<Rightarrow> 'a list" where
  "insertSorted cmp x [] = [x]"
| "insertSorted cmp x (y # ys) =
     (if comesAfter (cmp x y) then y # insertSorted cmp x ys else x # y # ys)"

definition sortWith :: "('a \<Rightarrow> 'a \<Rightarrow> int option) \<Rightarrow> 'a list \<Rightarrow> 'a list" where
  "sortWith cmp xs = foldr (insertSorted cmp) xs []"

text \<open>
  admin.controller.ts, \<open>getTimetableForClassSection\<close>: the route parameters \<open>class\<close>
  and \<open>section\<close> and the query parameter \<open>date\<close>. (The included teacher name of each
  row is left out of the body.)
\<close>

definition getTimetableForClassSection ::
  "(string \<Rightarrow> Date option) \<Rightarrow> Db \<Rightarrow> string option \<Rightarrow> string option \<Rightarrow> string option \<Rightarrow> Response" where
  "getTimetableForClassSection parseDate db studentClass sect queryDateString =
     (if \<not> truthy studentClass then Json 400 (Msg ClassRequired)
      else if truthy queryDateString then
        (case parseDate (the queryDateString) of
           None \<Rightarrow> Json 400 (Msg InvalidQueryDate)
         | Some parsedDate \<Rightarrow>
             let targetDate = utcMidnight parsedDate;
                 targetDayOfWeek = getDayOfWeekFromDate targetDate;
                 alternateSlots =
                   filter (\<lambda>r. currentClass r = the studentClass \<and> slotSection r = orNull sect \<and>
                                date r = Some targetDate) (timetableSlots db) in
             if alternateSlots \<noteq> [] then Json 200 (SlotList (sortWith compareSlots alternateSlots))
             else Json 200 (SlotList (sortWith compareSlots
                    (filter (\<lambda>r. currentClass r = the studentClass \<and> slotSection r = orNull sect \<and>
                                 dayOfWeek r = targetDayOfWeek \<and> date r = None)
                       (timetableSlots db)))))
      else Json 200 (SlotList (sortWith compareSlots
             (filter (\<lambda>r. currentClass r = the studentClass \<and> slotSection r = orNull sect \<and>
                          date r = None) (timetableSlots db)))))"

text \<open>
  teacher.controller.ts, \<open>getTeacherTimetable\<close> (the handler the route
  \<open>/teacher/timetable\<close> mounts): \<open>teacherId\<close> is the authenticated user.
\<close>

definition nameOf :: "Db \<Rightarrow> string option \<Rightarrow> string option" where
  "nameOf db uid =
     (case uid of
        None \<Rightarrow> None
      | Some u \<Rightarrow> (case users db u of None \<Rightarrow> None | Some usr \<Rightarrow> Some (userName usr)))"

definition teacherSlotView :: "Db \<Rightarrow> string \<Rightarrow> TimetableSlot \<Rightarrow> TeacherSlotView" where
  "teacherSlotView db t slot =
     \<lparr>v_slot = slot,
      isSubstituteAssignment = (substituteTeacherId slot = Some t),
      originalTeacherName = nameOf db (teacherId slot),
      teachingTeacherName =
        (if truthy (substituteTeacherId slot) then nameOf db (substituteTeacherId slot)
         else nameOf db (teacherId slot))\<rparr>"

definition compareViews :: "TeacherSlotView \<Rightarrow> TeacherSlotView \<Rightarrow> int option" where
  "compareViews a b = compareSlots (v_slot a) (v_slot b)"

definition effectiveSlotsForTeacher ::
  "(string \<Rightarrow> Date option) \<Rightarrow> Db \<Rightarrow> string \<Rightarrow> string option \<Rightarrow> TimetableSlot list option" where
  "effectiveSlotsForTeacher parseDate db t queryDateString =
     (if truthy queryDateString then
        (case parseDate (the queryDateString) of
           None \<Rightarrow> None
         | Some parsedDate \<Rightarrow>
             let targetDate = utcMidnight parsedDate;
                 targetDayOfWeek = getDayOfWeekFromDate targetDate;
                 substitutingDateSlots =
                   filter (\<lambda>r. substituteTeacherId r = Some t \<and> date r = Some targetDate)
                     (timetableSlots db);
                 ownDateSpecificSlots =
                   filter (\<lambda>r. teacherId r = Some t \<and> date r = Some targetDate \<and>
                                substituteTeacherId r = None) (timetableSlots db);
                 substitutedDateSlots =
                   filter (\<lambda>r. teacherId r = Some t \<and> date r = Some targetDate \<and>
                                substituteTeacherId r \<noteq> None) (timetableSlots db) in
             if substitutingDateSlots \<noteq> [] \<or> ownDateSpecificSlots \<noteq> [] \<or>
                substitutedDateSlots \<noteq> []
             then Some (substitutingDateSlots @ ownDateSpecificSlots)
             else
               Some (filter (\<lambda>r. teacherId r = Some t \<and> dayOfWeek r = targetDayOfWeek \<and>
                                  date r = None \<and> substituteTeacherId r = None)
                       (timetableSlots db) @
                     filter (\<lambda>r. substituteTeacherId r = Some t \<and> dayOfWeek r = targetDayOfWeek \<and>
                                  date r = None) (timetableSlots db)))
      else
        Some (filter (\<lambda>r. teacherId r = Some t \<and> date r = None \<and> substituteTeacherId r = None)
                (timetableSlots db) @
              filter (\<lambda>r. substituteTeacherId r = Some t \<and> date r = None) (timetableSlots db)))"

definition getTeacherTimetable ::
  "(string \<Rightarrow> Date option) \<Rightarrow> Db \<Rightarrow> string \<Rightarrow> string option \<Rightarrow> Response" where
  "getTeacherTimetable parseDate db t queryDateString =
     (case effectiveSlotsForTeacher parseDate db t queryDateString of
        None \<Rightarrow> Json 400 (Msg InvalidQueryDate)
      | Some slots \<Rightarrow>
          Json 200 (TeacherSlotList (sortWith compareViews (map (teacherSlotView db t) slots))))"

section \<open>Substitute assignment (admin.controller.ts)\<close>

record AssignSubstitutePayload =
  s_timetableSlotId :: "string option"
  s_substituteTeacherId :: "string option"

definition substituteConflicts :: "Db \<Rightarrow> string \<Rightarrow> TimetableSlot \<Rightarrow> string \<Rightarrow> TimetableSlot list" where
  "substituteConflicts db sub slotToUpdate timetableSlotId =
     filter (\<lambda>r. (teacherId r = Some sub \<or> substituteTeacherId r = Some sub) \<and>
                  dayOfWeek r = dayOfWeek slotToUpdate \<and> date r = date slotToUpdate \<and>
                  slotId r \<noteq> timetableSlotId) (timetableSlots db)"

definition assignSubstituteTeacher :: "Db \<Rightarrow> AssignSubstitutePayload \<Rightarrow> Db \<times> Response" where
  "assignSubstituteTeacher db body =
     (if \<not> truthy (s_timetableSlotId body) \<or> \<not> truthy (s_substituteTeacherId body)
      then (db, Json 400 (Msg SlotAndSubstituteRequired))
      else
        let timetableSlotId = the (s_timetableSlotId body);
            sub = the (s_substituteTeacherId body) in
        (case findUnique db timetableSlotId of
           None \<Rightarrow> (db, Json 404 (Msg SlotNotFound))
         | Some slotToUpdate \<Rightarrow>
             if findTeacher db sub = None then (db, Json 400 (Msg NotAValidSubstitute))
             else if truthy (teacherId slotToUpdate) \<and> teacherId slotToUpdate = Some sub
             then (db, Json 400 (Msg OwnSlot))
             else
               (case firstOverlapping (startTime slotToUpdate) (endTime slotToUpdate)
                       (substituteConflicts db sub slotToUpdate timetableSlotId) of
                  Some existingSlot \<Rightarrow> (db, Json 409 (MsgSlot SubstituteConflict existingSlot))
                | None \<Rightarrow>
                    if substituteTeacherId slotToUpdate = Some sub
                    then (db, Json 409 (Msg SubstituteConflict))
                    else
                      (case updateSlot db timetableSlotId
                              (\<lambda>r. r\<lparr>substituteTeacherId := Some sub\<rparr>) of
                         Inl _ \<Rightarrow> (db, NextError)
                       | Inr (db', updatedSlot) \<Rightarrow>
                           (db', Json 200 (MsgSlot SubstituteAssigned updatedSlot))))))"

definition clearSubstituteTeacher :: "Db \<Rightarrow> string option \<Rightarrow> Db \<times> Response" where
  "clearSubstituteTeacher db timetableSlotId =
     (if \<not> truthy timetableSlotId then (db, Json 400 (Msg SlotIdRequired))
      else
        (case findUnique db (the timetableSlotId) of
           None \<Rightarrow> (db, Json 404 (Msg SlotNotFound))
         | Some slotToUpdate \<Rightarrow>
             (case updateSlot db (the timetableSlotId) (\<lambda>r. r\<lparr>substituteTeacherId := None\<rparr>) of
                Inl _ \<Rightarrow> (db, NextError)
              | Inr (db', updatedSlot) \<Rightarrow>
                  (db', Json 200 (MsgSlot SubstituteCleared updatedSlot)))))"

section \<open>Example data\<close>

text \<open>
  Users, rows and requests in the style of the integration tests, used to run the model
  on concrete inputs. \<open>exParseDate\<close> gives the \<open>Date\<close> constructor on the date strings
  that occur: 2024-07-26 is a Friday, 2024-09-05 and 2024-10-10 are Thursdays, 2024-12-02 is a
  Monday.
\<close>

definition exUsers :: "string \<Rightarrow> User option" where
  "exUsers =
     (\<lambda>_. None)
       (''t1'' := Some \<lparr>userName = ''Test Teacher'', userRole = TEACHER\<rparr>,
        ''t2'' := Some \<lparr>userName = ''Test Teacher 2'', userRole = TEACHER\<rparr>,
        ''a1'' := Some \<lparr>userName = ''Timetable Admin'', userRole = ADMIN\<rparr>)"

definition exParseDate :: "string \<Rightarrow> Date option" where
  "exParseDate s =
     (if s = ''2024-07-26'' then Some 1721952000000
      else if s = ''2024-09-05'' then Some 1725494400000
      else if s = ''2024-10-10'' then Some 1728518400000
      else if s = ''2024-12-02'' then Some 1733097600000
      else None)"

definition mathsMonday :: TimetableSlot where
  "mathsMonday =
     \<lparr>slotId = ''s1'', dayOfWeek = MONDAY, startTime = ''09:00'', endTime = ''10:00'',
      currentClass = ''Grade10'', slotSection = Some ''A'', subject = ''Mathematics'',
      teacherId = Some ''t1'', substituteTeacherId = None, date = None\<rparr>"

definition exDbMaths :: Db where
  "exDbMaths = \<lparr>users = exUsers, timetableSlots = [mathsMonday]\<rparr>"

definition regularThursday :: TimetableSlot where
  "regularThursday =
     \<lparr>slotId = ''r1'', dayOfWeek = THURSDAY, startTime = ''09:00'', endTime = ''10:00'',
      currentClass = ''Grade10'', slotSection = Some ''A'', subject = ''Regular Subject'',
      teacherId = None, substituteTeacherId = None, date = None\<rparr>"

definition alternateLate :: TimetableSlot where
  "alternateLate =
     \<lparr>slotId = ''x1'', dayOfWeek = THURSDAY, startTime = ''10:00'', endTime = ''11:00'',
      currentClass = ''Grade10'', slotSection = Some ''A'', subject = ''Another Alt Subject'',
      teacherId = None, substituteTeacherId = None, date = Some 1728518400000\<rparr>"

definition alternateEarly :: TimetableSlot where
  "alternateEarly =
     \<lparr>slotId = ''x2'', dayOfWeek = THURSDAY, startTime = ''09:00'', endTime = ''10:00'',
      currentClass = ''Grade10'', slotSection = Some ''A'',
      subject = ''Alternate Subject for Date'',
      teacherId = None, substituteTeacherId = None, date = Some 1728518400000\<rparr>"

definition exDbThursday :: Db where
  "exDbThursday =
     \<lparr>users = exUsers, timetableSlots = [regularThursday, alternateLate, alternateEarly]\<rparr>"

definition subbedMonday :: TimetableSlot where
  "subbedMonday =
     \<lparr>slotId = ''m1'', dayOfWeek = MONDAY, startTime = ''09:00'', endTime = ''10:00'',
      currentClass = ''C1'', slotSection = None, subject = ''S1_ALT_SUBBED'',
      teacherId = Some ''t1'', substituteTeacherId = Some ''t2'', date = Some 1733097600000\<rparr>"

definition regularMonday :: TimetableSlot where
  "regularMonday =
     \<lparr>slotId = ''m2'', dayOfWeek = MONDAY, startTime = ''11:00'', endTime = ''12:00'',
      currentClass = ''C2'', slotSection = None, subject = ''S1_REG_MON'',
      teacherId = Some ''t1'', substituteTeacherId = None, date = None\<rparr>"

definition exDbSubbed :: Db where
  "exDbSubbed = \<lparr>users = exUsers, timetableSlots = [subbedMonday, regularMonday]\<rparr>"

definition physicsByT1 :: TimetableSlotPayload where
  "physicsByT1 =
     \<lparr>p_id = None, p_dayOfWeek = Some ''MONDAY'', p_startTime = Some ''09:30'',
      p_endTime = Some ''10:30'', p_currentClass = Some ''Grade10'', p_section = Some ''A'',
      p_subject = Some ''Physics'', p_teacherId = Some ''t1'', p_date = None\<rparr>"

definition physicsNoTeacher :: TimetableSlotPayload where
  "physicsNoTeacher =
     \<lparr>p_id = None, p_dayOfWeek = Some ''MONDAY'', p_startTime = Some ''09:30'',
      p_endTime = Some ''10:30'', p_currentClass = Some ''Grade10'', p_section = Some ''A'',
      p_subject = Some ''Physics'', p_teacherId = None, p_date = None\<rparr>"

definition subOnlyMonday :: TimetableSlot where
  "subOnlyMonday =
     \<lparr>slotId = ''s2'', dayOfWeek = MONDAY, startTime = ''09:00'', endTime = ''10:00'',
      currentClass = ''Grade10'', slotSection = Some ''A'', subject = ''Mathematics'',
      teacherId = None, substituteTeacherId = Some ''t1'', date = None\<rparr>"

definition exDbSubOnly :: Db where
  "exDbSubOnly = \<lparr>users = exUsers, timetableSlots = [subOnlyMonday]\<rparr>"

definition chemistryByT1 :: TimetableSlotPayload where
  "chemistryByT1 =
     \<lparr>p_id = None, p_dayOfWeek = Some ''MONDAY'', p_startTime = Some ''09:30'',
      p_endTime = Some ''10:30'', p_currentClass = Some ''Grade9'', p_section = Some ''A'',
      p_subject = Some ''Chemistry'', p_teacherId = Some ''t1'', p_date = None\<rparr>"

definition chemistryCreated :: TimetableSlot where
  "chemistryCreated =
     \<lparr>slotId = ''ccc'', dayOfWeek = MONDAY, startTime = ''09:30'', endTime = ''10:30'',
      currentClass = ''Grade9'', slotSection = Some ''A'', subject = ''Chemistry'',
      teacherId = Some ''t1'', substituteTeacherId = None, date = None\<rparr>"

definition exDbDated :: Db where
  "exDbDated = \<lparr>users = exUsers, timetableSlots = [alternateEarly]\<rparr>"

definition exDbWeekly :: Db where
  "exDbWeekly = \<lparr>users = exUsers, timetableSlots = [regularThursday]\<rparr>"

definition weeklyPhysics :: TimetableSlotPayload where
  "weeklyPhysics =
     \<lparr>p_id = None, p_dayOfWeek = Some ''THURSDAY'', p_startTime = Some ''09:30'',
      p_endTime = Some ''10:30'', p_currentClass = Some ''Grade10'', p_section = Some ''A'',
      p_subject = Some ''Physics'', p_teacherId = None, p_date = None\<rparr>"

definition datedPhysics :: TimetableSlotPayload where
  "datedPhysics =
     \<lparr>p_id = None, p_dayOfWeek = Some ''THURSDAY'', p_startTime = Some ''09:30'',
      p_endTime = Some ''10:30'', p_currentClass = Some ''Grade10'', p_section = Some ''A'',
      p_subject = Some ''Physics'', p_teacherId = None, p_date = Some ''2024-10-10''\<rparr>"

definition exDbEmpty :: Db where
  "exDbEmpty = \<lparr>users = exUsers, timetableSlots = []\<rparr>"

definition specialEvent :: TimetableSlotPayload where
  "specialEvent =
     \<lparr>p_id = None, p_dayOfWeek = Some ''MONDAY'', p_startTime = Some ''10:00'',
      p_endTime = Some ''11:00'', p_currentClass = Some ''Grade10'', p_section = Some ''A'',
      p_subject = Some ''Special Event'', p_teacherId = None, p_date = Some ''2024-07-26''\<rparr>"

definition specialEventStored :: TimetableSlot where
  "specialEventStored =
     \<lparr>slotId = ''c'', dayOfWeek = MONDAY, startTime = ''10:00'', endTime = ''11:00'',
      currentClass = ''Grade10'', slotSection = Some ''A'', subject = ''Special Event'',
      teacherId = None, substituteTeacherId = None, date = Some 1721952000000\<rparr>"

definition oldAlternate :: TimetableSlot where
  "oldAlternate =
     \<lparr>slotId = ''o1'', dayOfWeek = THURSDAY, startTime = ''08:00'', endTime = ''09:00'',
      currentClass = ''Grade10'', slotSection = Some ''A'', subject = ''Old Alternate'',
      teacherId = None, substituteTeacherId = None, date = Some 1725494400000\<rparr>"

definition exDbAlternate :: Db where
  "exDbAlternate = \<lparr>users = exUsers, timetableSlots = [regularThursday, oldAlternate]\<rparr>"

definition examPrep1 :: AlternateSlotInput where
  "examPrep1 =
     \<lparr>a_startTime = Some ''09:00'', a_endTime = Some ''11:00'', a_currentClass = Some ''Grade10'',
      a_section = Some ''A'', a_subject = Some ''Exam Prep 1'', a_teacherId = Some ''t1''\<rparr>"

definition examPrep2 :: AlternateSlotInput where
  "examPrep2 =
     \<lparr>a_startTime = Some ''11:30'', a_endTime = Some ''13:30'', a_currentClass = Some ''Grade10'',
      a_section = Some ''A'', a_subject = Some ''Exam Prep 2'', a_teacherId = None\<rparr>"

definition revisedPrep :: AlternateSlotInput where
  "revisedPrep =
     \<lparr>a_startTime = Some ''10:00'', a_endTime = Some ''12:00'', a_currentClass = Some ''Grade10'',
      a_section = Some ''A'', a_subject = Some ''Revised Exam Prep'', a_teacherId = None\<rparr>"

definition clashA :: AlternateSlotInput where
  "clashA =
     \<lparr>a_startTime = Some ''09:00'', a_endTime = Some ''10:00'', a_currentClass = Some ''Grade10'',
      a_section = Some ''A'', a_subject = Some ''Sub A'', a_teacherId = Some ''t1''\<rparr>"

definition clashB :: AlternateSlotInput where
  "clashB =
     \<lparr>a_startTime = Some ''09:30'', a_endTime = Some ''10:30'', a_currentClass = Some ''Grade10'',
      a_section = Some ''B'', a_subject = Some ''Sub B'', a_teacherId = Some ''t1''\<rparr>"

definition examPrep1Row :: TimetableSlot where
  "examPrep1Row =
     \<lparr>slotId = ''ccc'', dayOfWeek = THURSDAY, startTime = ''09:00'', endTime = ''11:00'',
      currentClass = ''Grade10'', slotSection = Some ''A'', subject = ''Exam Prep 1'',
      teacherId = Some ''t1'', substituteTeacherId = None, date = Some 1725494400000\<rparr>"

definition examPrep2Row :: TimetableSlot where
  "examPrep2Row =
     \<lparr>slotId = ''cccc'', dayOfWeek = THURSDAY, startTime = ''11:30'', endTime = ''13:30'',
      currentClass = ''Grade10'', slotSection = Some ''A'', subject = ''Exam Prep 2'',
      teacherId = None, substituteTeacherId = None, date = Some 1725494400000\<rparr>"

definition revisedPrepRow :: TimetableSlot where
  "revisedPrepRow =
     \<lparr>slotId = ''ccc'', dayOfWeek = THURSDAY, startTime = ''10:00'', endTime = ''12:00'',
      currentClass = ''Grade10'', slotSection = Some ''A'', subject = ''Revised Exam Prep'',
      teacherId = None, substituteTeacherId = None, date = Some 1725494400000\<rparr>"

section \<open>Facts about the time utilities\<close>

lemma matchesHHMM_shape:
  "matchesHHMM t \<Longrightarrow>
     \<exists>a b d e. t = [a, b, CHR '':'', d, e] \<and> isDigit a \<and> isDigit b \<and> isDigit d \<and> isDigit e"
  by (auto simp: matchesHHMM_def split: list.splits)

lemma isDigit_not_colon: "isDigit c \<Longrightarrow> c \<noteq> CHR '':''"
  by (auto simp: isDigit_def)

lemma hoursMinutes_HHMM:
  assumes "isDigit a" "isDigit b" "isDigit d" "isDigit e"
  shows "hoursMinutes [a, b, CHR '':'', d, e] =
           (Some (digitValue a * 10 + digitValue b), Some (digitValue d * 10 + digitValue e))"
  using assms isDigit_not_colon [of a] isDigit_not_colon [of b]
    isDigit_not_colon [of d] isDigit_not_colon [of e]
  by (simp add: hoursMinutes_def Number_def)

lemma valid_timeToMinutes:
  assumes "isValidTimeFormat t"
  shows "\<exists>n. timeToMinutes t = Some n \<and> n < 1440"
proof -
  from assms have m: "matchesHHMM t"
    by (auto simp: isValidTimeFormat_def split: if_splits)
  then obtain a b d e where t: "t = [a, b, CHR '':'', d, e]"
    and dg: "isDigit a" "isDigit b" "isDigit d" "isDigit e"
    using matchesHHMM_shape by blast
  have hm: "hoursMinutes t =
      (Some (digitValue a * 10 + digitValue b), Some (digitValue d * 10 + digitValue e))"
    unfolding t using dg by (rule hoursMinutes_HHMM)
  from assms m hm have "digitValue a * 10 + digitValue b \<le> 23"
    and "digitValue d * 10 + digitValue e \<le> 59"
    by (simp_all add: isValidTimeFormat_def)
  then show ?thesis
    by (simp add: timeToMinutes_def hm)
qed

text \<open>
  C10. For valid time strings the overlap test is
  \<open>max (toMinutes aStart) (toMinutes bStart) < min (toMinutes aEnd) (toMinutes bEnd)\<close>,
  with every \<open>toMinutes\<close> a number of minutes below 1440; so it is symmetric in its two
  intervals, and an interval that ends at a time \<open>t\<close> does not overlap one that starts at
  \<open>t\<close> (half-open intervals).
\<close>

theorem doTimeSlotsOverlap_max_min:
  assumes "isValidTimeFormat aStart" and "isValidTimeFormat aEnd"
    and "isValidTimeFormat bStart" and "isValidTimeFormat bEnd"
  shows "\<exists>sa ea sb eb.
           timeToMinutes aStart = Some sa \<and> timeToMinutes aEnd = Some ea \<and>
           timeToMinutes bStart = Some sb \<and> timeToMinutes bEnd = Some eb \<and>
           doTimeSlotsOverlap aStart aEnd bStart bEnd = (max sa sb < min ea eb) \<and>
           doTimeSlotsOverlap aStart aEnd bStart bEnd = doTimeSlotsOverlap bStart bEnd aStart aEnd \<and>
           \<not> doTimeSlotsOverlap aStart aEnd aEnd bEnd"
proof -
  obtain sa where sa: "timeToMinutes aStart = Some sa"
    using valid_timeToMinutes [OF assms(1)] by blast
  obtain ea where ea: "timeToMinutes aEnd = Some ea"
    using valid_timeToMinutes [OF assms(2)] by blast
  obtain sb where sb: "timeToMinutes bStart = Some sb"
    using valid_timeToMinutes [OF assms(3)] by blast
  obtain eb where eb: "timeToMinutes bEnd = Some eb"
    using valid_timeToMinutes [OF assms(4)] by blast
  have "doTimeSlotsOverlap aStart aEnd bStart bEnd = (max sa sb < min ea eb)"
    by (simp add: doTimeSlotsOverlap_def sa ea sb eb)
  moreover have "doTimeSlotsOverlap bStart bEnd aStart aEnd = (max sa sb < min ea eb)"
    by (simp add: doTimeSlotsOverlap_def sa ea sb eb max.commute min.commute)
  moreover have "\<not> doTimeSlotsOverlap aStart aEnd aEnd bEnd"
    by (simp add: doTimeSlotsOverlap_def sa ea eb)
  ultimately show ?thesis
    using sa ea sb eb by simp
qed

theorem doTimeSlotsOverlap_max_min_witness:
  "isValidTimeFormat ''09:00'' \<and> isValidTimeFormat ''10:00'' \<and>
   isValidTimeFormat ''09:30'' \<and> isValidTimeFormat ''10:30'' \<and>
   timeToMinutes ''09:00'' = Some 540 \<and> timeToMinutes ''10:30'' = Some 630 \<and>
   doTimeSlotsOverlap ''09:00'' ''10:00'' ''09:30'' ''10:30'' \<and>
   doTimeSlotsOverlap ''09:30'' ''10:30'' ''09:00'' ''10:00'' \<and>
   \<not> doTimeSlotsOverlap ''09:00'' ''10:00'' ''10:00'' ''10:30''"
proof -
  have v: "isValidTimeFormat ''09:00''" "isValidTimeFormat ''10:00''"
    "isValidTimeFormat ''09:30''" "isValidTimeFormat ''10:30''"
    by (simp_all add: isValidTimeFormat_def matchesHHMM_def hoursMinutes_def Number_def
        isDigit_def digitValue_def)
  have m: "timeToMinutes ''09:00'' = Some 540" "timeToMinutes ''10:00'' = Some 600"
    "timeToMinutes ''09:30'' = Some 570" "timeToMinutes ''10:30'' = Some 630"
    by (simp_all add: timeToMinutes_def hoursMinutes_def Number_def isDigit_def digitValue_def)
  from doTimeSlotsOverlap_max_min [OF v] m v show ?thesis
    by auto
qed

text \<open>
  The normalisation at dates of the integration tests and at dates with a year below 100:
  0050-01-01 (a Saturday) is read as 1950-01-01 (a Sunday), and 29 February of year 0
  as 1 March 1900.
\<close>

lemma utcMidnight_examples:
  "utcMidnight 1721952000000 = 1721952000000"
  "utcMidnight 1725494400000 = 1725494400000"
  "utcMidnight 1728558000000 = 1728518400000"
  "utcMidnight (- 60589296000000) = - 631152000000"
  "getDayOfWeekFromDate (- 60589296000000) = SATURDAY"
  "getDayOfWeekFromDate (utcMidnight (- 60589296000000)) = SUNDAY"
  "utcMidnight (- 62162121600000) = - 2203891200000"
  "utcMidnight (- 62162035200000) = - 2203891200000"
  by (simp_all add: utcMidnight_def msPerDay_def daysYear0_def daysYear100_def
      daysYear1900_def twoDigitYearDay_def getDayOfWeekFromDate_def getUTCDay_def Let_def)

section \<open>Facts about the store\<close>

lemma find_by_id_distinct:
  "distinct (map slotId rows) \<Longrightarrow> s \<in> set rows \<Longrightarrow>
     find (\<lambda>r. slotId r = slotId s) rows = Some s"
  by (induction rows) (auto simp: rev_image_eqI)

lemma find_SomeD: "find P xs = Some x \<Longrightarrow> x \<in> set xs \<and> P x"
  by (induction xs) (auto split: if_splits)

lemma updateSlot_Inr:
  assumes "updateSlot db i patch = Inr (db', row)"
  shows "\<exists>old. find (\<lambda>r. slotId r = i) (timetableSlots db) = Some old \<and> row = patch old \<and>
     db' = db\<lparr>timetableSlots :=
                 map (\<lambda>r. if slotId r = i then patch r else r) (timetableSlots db)\<rparr>"
  using assms by (auto simp: updateSlot_def findUnique_def split: option.splits if_splits)

section \<open>Substitute assignment\<close>

text \<open>
  C9. For a slot \<open>s\<close> of the table (ids being the primary key) whose primary teacher is
  \<open>t\<close>, a request to make \<open>t\<close> the substitute of \<open>s\<close> is answered 400 whatever the other
  rows of the table are, and the database is returned as it was. When both ids are
  non-empty and \<open>t\<close> is a teacher, the 400 is the self-substitution message; otherwise it
  is the 400 of one of the two checks before it. The overlap check is never reached.
\<close>

theorem self_substitution_rejected:
  assumes "distinct (map slotId (timetableSlots db))"
    and "s \<in> set (timetableSlots db)"
    and "teacherId s = Some t"
    and "s_timetableSlotId body = Some (slotId s)"
    and "s_substituteTeacherId body = Some t"
  shows "(\<exists>m. assignSubstituteTeacher db body = (db, Json 400 (Msg m))) \<and>
         (slotId s \<noteq> [] \<and> t \<noteq> [] \<and> findTeacher db t \<noteq> None \<longrightarrow>
            assignSubstituteTeacher db body = (db, Json 400 (Msg OwnSlot)))"
proof -
  have f: "findUnique db (slotId s) = Some s"
    unfolding findUnique_def using assms(1,2) by (rule find_by_id_distinct)
  show ?thesis
    using assms(3,4,5) f
    by (simp add: assignSubstituteTeacher_def truthy_def Let_def)
qed

theorem self_substitution_rejected_witness:
  "distinct (map slotId (timetableSlots exDbMaths)) \<and>
   mathsMonday \<in> set (timetableSlots exDbMaths) \<and>
   teacherId mathsMonday = Some ''t1'' \<and>
   findTeacher exDbMaths ''t1'' \<noteq> None \<and>
   assignSubstituteTeacher exDbMaths
     \<lparr>s_timetableSlotId = Some ''s1'', s_substituteTeacherId = Some ''t1''\<rparr> =
       (exDbMaths, Json 400 (Msg OwnSlot))"
  using self_substitution_rejected [of exDbMaths mathsMonday "''t1''"
      "\<lparr>s_timetableSlotId = Some ''s1'', s_substituteTeacherId = Some ''t1''\<rparr>"]
  by (simp add: exUsers_def mathsMonday_def exDbMaths_def findTeacher_def)

text \<open>
  C8. A successful \<open>assignSubstituteTeacher\<close> (the 200 response) leaves the users and the
  number and order of the slots as they were; every slot keeps all its columns except
  \<open>substituteTeacherId\<close> (so \<open>teacherId\<close> too), which becomes the substitute on the slot
  of the request and stays as it was on every other slot. The same holds for a successful
  \<open>clearSubstituteTeacher\<close>, with \<open>null\<close> for the substitute. (The \<open>updatedAt\<close>
  timestamp the store maintains is not part of the model.)
\<close>

theorem substitute_only_field:
  "(assignSubstituteTeacher db body = (db', Json 200 b) \<longrightarrow>
      (\<exists>sid t2 old. s_timetableSlotId body = Some sid \<and> s_substituteTeacherId body = Some t2 \<and>
         old \<in> set (timetableSlots db) \<and> slotId old = sid \<and>
         b = MsgSlot SubstituteAssigned (old\<lparr>substituteTeacherId := Some t2\<rparr>) \<and>
         users db' = users db \<and>
         list_all2 (\<lambda>r r'. r' = r\<lparr>substituteTeacherId := substituteTeacherId r'\<rparr> \<and>
                            teacherId r' = teacherId r \<and>
                            substituteTeacherId r' =
                              (if slotId r = sid then Some t2 else substituteTeacherId r))
           (timetableSlots db) (timetableSlots db'))) \<and>
   (clearSubstituteTeacher dbc tsid = (dbc', Json 200 b') \<longrightarrow>
      (\<exists>sid old. tsid = Some sid \<and>
         old \<in> set (timetableSlots dbc) \<and> slotId old = sid \<and>
         b' = MsgSlot SubstituteCleared (old\<lparr>substituteTeacherId := None\<rparr>) \<and>
         users dbc' = users dbc \<and>
         list_all2 (\<lambda>r r'. r' = r\<lparr>substituteTeacherId := substituteTeacherId r'\<rparr> \<and>
                            teacherId r' = teacherId r \<and>
                            substituteTeacherId r' =
                              (if slotId r = sid then None else substituteTeacherId r))
           (timetableSlots dbc) (timetableSlots dbc')))"
proof (intro conjI impI)
  assume a: "assignSubstituteTeacher db body = (db', Json 200 b)"
  then obtain sid t2 where
    ids: "s_timetableSlotId body = Some sid" "s_substituteTeacherId body = Some t2"
    by (auto simp: assignSubstituteTeacher_def truthy_def split: if_splits option.splits)
  from a ids obtain row where
    u: "updateSlot db sid (\<lambda>r. r\<lparr>substituteTeacherId := Some t2\<rparr>) = Inr (db', row)"
    and b: "b = MsgSlot SubstituteAssigned row"
    by (auto simp: assignSubstituteTeacher_def truthy_def Let_def
        split: if_splits option.splits sum.splits)
  from updateSlot_Inr [OF u] obtain old where
    old: "find (\<lambda>r. slotId r = sid) (timetableSlots db) = Some old"
    and row: "row = old\<lparr>substituteTeacherId := Some t2\<rparr>"
    and db': "db' = db\<lparr>timetableSlots :=
        map (\<lambda>r. if slotId r = sid then r\<lparr>substituteTeacherId := Some t2\<rparr> else r)
          (timetableSlots db)\<rparr>"
    by blast
  from find_SomeD [OF old] have mem: "old \<in> set (timetableSlots db)" "slotId old = sid"
    by auto
  have frame: "list_all2 (\<lambda>r r'. r' = r\<lparr>substituteTeacherId := substituteTeacherId r'\<rparr> \<and>
                            teacherId r' = teacherId r \<and>
                            substituteTeacherId r' =
                              (if slotId r = sid then Some t2 else substituteTeacherId r))
           (timetableSlots db) (timetableSlots db')"
    by (simp add: db' list_all2_map2 list_all2_same)
  show "\<exists>sid t2 old. s_timetableSlotId body = Some sid \<and> s_substituteTeacherId body = Some t2 \<and>
         old \<in> set (timetableSlots db) \<and> slotId old = sid \<and>
         b = MsgSlot SubstituteAssigned (old\<lparr>substituteTeacherId := Some t2\<rparr>) \<and>
         users db' = users db \<and>
         list_all2 (\<lambda>r r'. r' = r\<lparr>substituteTeacherId := substituteTeacherId r'\<rparr> \<and>
                            teacherId r' = teacherId r \<and>
                            substituteTeacherId r' =
                              (if slotId r = sid then Some t2 else substituteTeacherId r))
           (timetableSlots db) (timetableSlots db')"
    using ids mem b row frame by (auto simp: db')
next
  assume a: "clearSubstituteTeacher dbc tsid = (dbc', Json 200 b')"
  then obtain sid where ids: "tsid = Some sid"
    by (auto simp: clearSubstituteTeacher_def truthy_def split: if_splits option.splits)
  from a ids obtain row where
    u: "updateSlot dbc sid (\<lambda>r. r\<lparr>substituteTeacherId := None\<rparr>) = Inr (dbc', row)"
    and b: "b' = MsgSlot SubstituteCleared row"
    by (auto simp: clearSubstituteTeacher_def truthy_def Let_def
        split: if_splits option.splits sum.splits)
  from updateSlot_Inr [OF u] obtain old where
    old: "find (\<lambda>r. slotId r = sid) (timetableSlots dbc) = Some old"
    and row: "row = old\<lparr>substituteTeacherId := None\<rparr>"
    and dbeq: "dbc' = dbc\<lparr>timetableSlots :=
        map (\<lambda>r. if slotId r = sid then r\<lparr>substituteTeacherId := None\<rparr> else r)
          (timetableSlots dbc)\<rparr>"
    by blast
  from find_SomeD [OF old] have mem: "old \<in> set (timetableSlots dbc)" "slotId old = sid"
    by auto
  have frame: "list_all2 (\<lambda>r r'. r' = r\<lparr>substituteTeacherId := substituteTeacherId r'\<rparr> \<and>
                            teacherId r' = teacherId r \<and>
                            substituteTeacherId r' =
                              (if slotId r = sid then None else substituteTeacherId r))
           (timetableSlots dbc) (timetableSlots dbc')"
    by (simp add: dbeq list_all2_map2 list_all2_same)
  show "\<exists>sid old. tsid = Some sid \<and>
         old \<in> set (timetableSlots dbc) \<and> slotId old = sid \<and>
         b' = MsgSlot SubstituteCleared (old\<lparr>substituteTeacherId := None\<rparr>) \<and>
         users dbc' = users dbc \<and>
         list_all2 (\<lambda>r r'. r' = r\<lparr>substituteTeacherId := substituteTeacherId r'\<rparr> \<and>
                            teacherId r' = teacherId r \<and>
                            substituteTeacherId r' =
                              (if slotId r = sid then None else substituteTeacherId r))
           (timetableSlots dbc) (timetableSlots dbc')"
    using ids mem b row frame by (auto simp: dbeq)
qed

theorem substitute_only_field_witness:
  "assignSubstituteTeacher exDbMaths
     \<lparr>s_timetableSlotId = Some ''s1'', s_substituteTeacherId = Some ''t2''\<rparr> =
     (exDbMaths\<lparr>timetableSlots := [mathsMonday\<lparr>substituteTeacherId := Some ''t2''\<rparr>]\<rparr>,
      Json 200 (MsgSlot SubstituteAssigned (mathsMonday\<lparr>substituteTeacherId := Some ''t2''\<rparr>))) \<and>
   clearSubstituteTeacher
     (exDbMaths\<lparr>timetableSlots := [mathsMonday\<lparr>substituteTeacherId := Some ''t2''\<rparr>]\<rparr>)
     (Some ''s1'') =
     (exDbMaths, Json 200 (MsgSlot SubstituteCleared mathsMonday)) \<and>
   teacherId (mathsMonday\<lparr>substituteTeacherId := Some ''t2''\<rparr>) = Some ''t1''"
  using substitute_only_field [where db = exDbMaths
      and body = "\<lparr>s_timetableSlotId = Some ''s1'', s_substituteTeacherId = Some ''t2''\<rparr>"
      and db' = "exDbMaths\<lparr>timetableSlots := [mathsMonday\<lparr>substituteTeacherId := Some ''t2''\<rparr>]\<rparr>"
      and b = "MsgSlot SubstituteAssigned (mathsMonday\<lparr>substituteTeacherId := Some ''t2''\<rparr>)"
      and tsid = "Some ''s1''"
      and dbc = "exDbMaths\<lparr>timetableSlots := [mathsMonday\<lparr>substituteTeacherId := Some ''t2''\<rparr>]\<rparr>"
      and dbc' = exDbMaths
      and b' = "MsgSlot SubstituteCleared mathsMonday"]
  by (simp add: exUsers_def mathsMonday_def exDbMaths_def assignSubstituteTeacher_def
      clearSubstituteTeacher_def substituteConflicts_def firstOverlapping_def findTeacher_def
      findUnique_def updateSlot_def sameUniqueKey_def truthy_def Let_def)

section \<open>Effective schedule\<close>

lemma mset_insertSorted: "mset (insertSorted cmp x xs) = add_mset x (mset xs)"
  by (induction xs) auto

lemma mset_sortWith: "mset (sortWith cmp xs) = mset xs"
  unfolding sortWith_def by (induction xs) (auto simp: mset_insertSorted)

lemma set_sortWith: "set (sortWith cmp xs) = set xs"
  using mset_sortWith [of cmp xs] by (metis set_mset_mset)

text \<open>
  C5. For a class \<open>c\<close> and the section of the request (\<open>orNull sect\<close>): with a query
  date that parses, \<open>D\<close> being the day the handler normalises it to (\<open>utcMidnight\<close>),
  the answer is a 200 whose rows are, as a multiset,
  exactly the stored rows of that class and section with \<open>date = D\<close> when there is at
  least one, and otherwise exactly the weekly rows (\<open>date = null\<close>) of that class and
  section whose \<open>dayOfWeek\<close> is the day of the week of \<open>D\<close>; so dated and weekly rows
  never occur together. With no query date the rows are exactly the weekly rows of the
  class and section.
\<close>

theorem class_timetable_date_precedence:
  assumes "studentClass = Some c" and "c \<noteq> []"
  shows "(\<forall>qs parsed. queryDateString = Some qs \<and> qs \<noteq> [] \<and> parseDate qs = Some parsed \<longrightarrow>
           (\<exists>result.
              getTimetableForClassSection parseDate db studentClass sect queryDateString =
                Json 200 (SlotList result) \<and>
              (if \<exists>r \<in> set (timetableSlots db).
                    currentClass r = c \<and> slotSection r = orNull sect \<and>
                    date r = Some (utcMidnight parsed)
               then mset result =
                      mset (filter (\<lambda>r. currentClass r = c \<and> slotSection r = orNull sect \<and>
                                         date r = Some (utcMidnight parsed)) (timetableSlots db))
               else mset result =
                      mset (filter (\<lambda>r. currentClass r = c \<and> slotSection r = orNull sect \<and>
                                         dayOfWeek r = getDayOfWeekFromDate (utcMidnight parsed) \<and>
                                         date r = None)
                              (timetableSlots db))))) \<and>
         (queryDateString = None \<or> queryDateString = Some [] \<longrightarrow>
           (\<exists>result.
              getTimetableForClassSection parseDate db studentClass sect queryDateString =
                Json 200 (SlotList result) \<and>
              mset result =
                mset (filter (\<lambda>r. currentClass r = c \<and> slotSection r = orNull sect \<and>
                                   date r = None) (timetableSlots db))))"
proof (intro conjI allI impI)
  fix qs parsed
  assume q: "queryDateString = Some qs \<and> qs \<noteq> [] \<and> parseDate qs = Some parsed"
  let ?dated = "filter (\<lambda>r. currentClass r = c \<and> slotSection r = orNull sect \<and>
                  date r = Some (utcMidnight parsed)) (timetableSlots db)"
  have ex: "(\<exists>r \<in> set (timetableSlots db).
                    currentClass r = c \<and> slotSection r = orNull sect \<and>
                    date r = Some (utcMidnight parsed)) = (?dated \<noteq> [])"
    by (auto simp: filter_empty_conv)
  show "\<exists>result.
              getTimetableForClassSection parseDate db studentClass sect queryDateString =
                Json 200 (SlotList result) \<and>
              (if \<exists>r \<in> set (timetableSlots db).
                    currentClass r = c \<and> slotSection r = orNull sect \<and>
                    date r = Some (utcMidnight parsed)
               then mset result =
                      mset (filter (\<lambda>r. currentClass r = c \<and> slotSection r = orNull sect \<and>
                                         date r = Some (utcMidnight parsed)) (timetableSlots db))
               else mset result =
                      mset (filter (\<lambda>r. currentClass r = c \<and> slotSection r = orNull sect \<and>
                                         dayOfWeek r = getDayOfWeekFromDate (utcMidnight parsed) \<and>
                                         date r = None)
                              (timetableSlots db)))"
    unfolding ex using assms q
    by (auto simp: getTimetableForClassSection_def truthy_def Let_def mset_sortWith
        intro!: arg_cong [where f = mset] filter_cong)
next
  assume "queryDateString = None \<or> queryDateString = Some []"
  then show "\<exists>result.
              getTimetableForClassSection parseDate db studentClass sect queryDateString =
                Json 200 (SlotList result) \<and>
              mset result =
                mset (filter (\<lambda>r. currentClass r = c \<and> slotSection r = orNull sect \<and>
                                   date r = None) (timetableSlots db))"
    using assms
    by (auto simp: getTimetableForClassSection_def truthy_def Let_def mset_sortWith)
qed


theorem class_timetable_date_precedence_witness:
  "getTimetableForClassSection exParseDate exDbThursday (Some ''Grade10'') (Some ''A'')
     (Some ''2024-10-10'') = Json 200 (SlotList [alternateEarly, alternateLate]) \<and>
   getTimetableForClassSection exParseDate exDbThursday (Some ''Grade10'') (Some ''A'')
     (Some ''2024-09-05'') = Json 200 (SlotList [regularThursday]) \<and>
   getTimetableForClassSection exParseDate exDbThursday (Some ''Grade10'') (Some ''A'')
     None = Json 200 (SlotList [regularThursday])"
  using class_timetable_date_precedence [of "Some ''Grade10''" "''Grade10''"
      "Some ''2024-10-10''" exParseDate exDbThursday "Some ''A''"]
  by (simp add: getTimetableForClassSection_def exParseDate_def regularThursday_def
      alternateLate_def alternateEarly_def exDbThursday_def truthy_def orNull_def Let_def
      msPerDay_def getUTCDay_def getDayOfWeekFromDate_def utcMidnight_def daysYear0_def
      daysYear100_def
      dayOrder_def compareSlots_def comesAfter_def sortWith_def
      hoursMinutes_def Number_def isDigit_def digitValue_def timeToMinutes_def)

text \<open>
  C6. The teacher's timetable (teacher.controller.ts) for teacher \<open>t\<close>, when the query
  date is absent or parses, is a 200 whose rows are stored slots, each flagged
  \<open>isSubstituteAssignment\<close> exactly when \<open>t\<close> is its substitute. It contains no slot
  whose primary teacher is \<open>t\<close> and whose substitute is another teacher. It contains every
  slot whose substitute is \<open>t\<close> in the scope queried: the weekly slots when no date is
  given; the slots dated \<open>D\<close> when the date parses and \<open>D\<close> is the day the handler
  normalises it to (\<open>utcMidnight\<close>); and, when \<open>t\<close> has no
  slot dated \<open>D\<close> at all (as primary teacher or as substitute), the weekly slots of the
  weekday of \<open>D\<close>.
\<close>

theorem teacher_timetable_substitutions:
  assumes "queryDateString = None \<or> queryDateString = Some [] \<or>
           (\<exists>qs parsed. queryDateString = Some qs \<and> parseDate qs = Some parsed)"
  shows "\<exists>views.
           getTeacherTimetable parseDate db t queryDateString = Json 200 (TeacherSlotList views) \<and>
           v_slot ` set views \<subseteq> set (timetableSlots db) \<and>
           (\<forall>v \<in> set views. isSubstituteAssignment v = (substituteTeacherId (v_slot v) = Some t)) \<and>
           (\<forall>v \<in> set views. \<forall>u. teacherId (v_slot v) = Some t \<and>
                                  substituteTeacherId (v_slot v) = Some u \<longrightarrow> u = t) \<and>
           (\<forall>s \<in> set (timetableSlots db). substituteTeacherId s = Some t \<longrightarrow>
              (queryDateString = None \<or> queryDateString = Some [] \<longrightarrow>
                 date s = None \<longrightarrow> s \<in> v_slot ` set views) \<and>
              (\<forall>qs parsed. queryDateString = Some qs \<and> qs \<noteq> [] \<and> parseDate qs = Some parsed \<longrightarrow>
                 (date s = Some (utcMidnight parsed) \<longrightarrow> s \<in> v_slot ` set views) \<and>
                 (date s = None \<and> dayOfWeek s = getDayOfWeekFromDate (utcMidnight parsed) \<and>
                  \<not> (\<exists>r \<in> set (timetableSlots db).
                        date r = Some (utcMidnight parsed) \<and>
                        (teacherId r = Some t \<or> substituteTeacherId r = Some t)) \<longrightarrow>
                    s \<in> v_slot ` set views)))"
proof -
  have "effectiveSlotsForTeacher parseDate db t queryDateString \<noteq> None"
    using assms unfolding effectiveSlotsForTeacher_def Let_def truthy_def
    by (auto split: option.splits)
  then obtain slots where e: "effectiveSlotsForTeacher parseDate db t queryDateString = Some slots"
    by blast
  let ?views = "sortWith compareViews (map (teacherSlotView db t) slots)"
  have r: "getTeacherTimetable parseDate db t queryDateString = Json 200 (TeacherSlotList ?views)"
    by (simp add: getTeacherTimetable_def e)
  have img: "v_slot ` set ?views = set slots"
    by (simp add: set_sortWith image_image teacherSlotView_def)
  have flag: "\<forall>v \<in> set ?views. isSubstituteAssignment v = (substituteTeacherId (v_slot v) = Some t)"
    by (auto simp: set_sortWith teacherSlotView_def)
  have sub: "set slots \<subseteq> set (timetableSlots db)"
    using e by (auto simp: effectiveSlotsForTeacher_def truthy_def Let_def
        split: if_splits option.splits)
  have excl: "\<forall>s \<in> set slots. \<forall>u. teacherId s = Some t \<and> substituteTeacherId s = Some u \<longrightarrow> u = t"
    using e by (auto simp: effectiveSlotsForTeacher_def truthy_def Let_def
        split: if_splits option.splits)
  have incl: "\<forall>s \<in> set (timetableSlots db). substituteTeacherId s = Some t \<longrightarrow>
              (queryDateString = None \<or> queryDateString = Some [] \<longrightarrow>
                 date s = None \<longrightarrow> s \<in> set slots) \<and>
              (\<forall>qs parsed. queryDateString = Some qs \<and> qs \<noteq> [] \<and> parseDate qs = Some parsed \<longrightarrow>
                 (date s = Some (utcMidnight parsed) \<longrightarrow> s \<in> set slots) \<and>
                 (date s = None \<and> dayOfWeek s = getDayOfWeekFromDate (utcMidnight parsed) \<and>
                  \<not> (\<exists>r \<in> set (timetableSlots db).
                        date r = Some (utcMidnight parsed) \<and>
                        (teacherId r = Some t \<or> substituteTeacherId r = Some t)) \<longrightarrow>
                    s \<in> set slots))"
  proof (intro ballI impI conjI allI)
    fix s assume s: "s \<in> set (timetableSlots db)" "substituteTeacherId s = Some t"
      and "queryDateString = None \<or> queryDateString = Some []" "date s = None"
    then show "s \<in> set slots"
      using e by (auto simp: effectiveSlotsForTeacher_def truthy_def)
  next
    fix s qs parsed
    assume s: "s \<in> set (timetableSlots db)" "substituteTeacherId s = Some t"
      and q: "queryDateString = Some qs \<and> qs \<noteq> [] \<and> parseDate qs = Some parsed"
      and d: "date s = Some (utcMidnight parsed)"
    have "filter (\<lambda>r. substituteTeacherId r = Some t \<and> date r = Some (utcMidnight parsed))
            (timetableSlots db) \<noteq> []"
      using s d by (auto simp: filter_empty_conv)
    then show "s \<in> set slots"
      using e q s d by (auto simp: effectiveSlotsForTeacher_def truthy_def Let_def)
  next
    fix s qs parsed
    assume s: "s \<in> set (timetableSlots db)" "substituteTeacherId s = Some t"
      and q: "queryDateString = Some qs \<and> qs \<noteq> [] \<and> parseDate qs = Some parsed"
      and d: "date s = None \<and> dayOfWeek s = getDayOfWeekFromDate (utcMidnight parsed) \<and>
                  \<not> (\<exists>r \<in> set (timetableSlots db).
                        date r = Some (utcMidnight parsed) \<and>
                        (teacherId r = Some t \<or> substituteTeacherId r = Some t))"
    then have none: "filter (\<lambda>r. substituteTeacherId r = Some t \<and> date r = Some (utcMidnight parsed))
            (timetableSlots db) = []"
      "filter (\<lambda>r. teacherId r = Some t \<and> date r = Some (utcMidnight parsed) \<and>
                                substituteTeacherId r = None) (timetableSlots db) = []"
      "filter (\<lambda>r. teacherId r = Some t \<and> date r = Some (utcMidnight parsed) \<and>
                                substituteTeacherId r \<noteq> None) (timetableSlots db) = []"
      by (auto simp: filter_empty_conv)
    show "s \<in> set slots"
      using e q s d unfolding effectiveSlotsForTeacher_def Let_def
      by (simp add: truthy_def none del: not_None_eq) auto
  qed
  have excl': "\<forall>v \<in> set ?views. \<forall>u. teacherId (v_slot v) = Some t \<and>
                  substituteTeacherId (v_slot v) = Some u \<longrightarrow> u = t"
    using excl img by blast
  have sub': "v_slot ` set ?views \<subseteq> set (timetableSlots db)"
    using sub img by simp
  show ?thesis
    using r sub' flag excl' incl [folded img] by (intro exI [of _ ?views] conjI)
qed

theorem teacher_timetable_substitutions_witness:
  "getTeacherTimetable exParseDate exDbSubbed ''t2'' (Some ''2024-12-02'') =
     Json 200 (TeacherSlotList
       [\<lparr>v_slot = subbedMonday, isSubstituteAssignment = True,
         originalTeacherName = Some ''Test Teacher'',
         teachingTeacherName = Some ''Test Teacher 2''\<rparr>]) \<and>
   getTeacherTimetable exParseDate exDbSubbed ''t1'' (Some ''2024-12-02'') =
     Json 200 (TeacherSlotList []) \<and>
   subbedMonday \<in> set (timetableSlots exDbSubbed) \<and>
   substituteTeacherId subbedMonday = Some ''t2'' \<and>
   date subbedMonday = Some (utcMidnight 1733097600000)"
  using teacher_timetable_substitutions [of "Some ''2024-12-02''" exParseDate exDbSubbed "''t2''"]
  by (simp add: getTeacherTimetable_def effectiveSlotsForTeacher_def teacherSlotView_def
      nameOf_def compareViews_def exParseDate_def exUsers_def subbedMonday_def regularMonday_def
      exDbSubbed_def truthy_def Let_def
      msPerDay_def getUTCDay_def getDayOfWeekFromDate_def utcMidnight_def daysYear0_def
      daysYear100_def
      dayOrder_def compareSlots_def comesAfter_def sortWith_def)

section \<open>Slot scheduler: conflict detection\<close>

lemma firstOverlapping_Some:
  "firstOverlapping st en rows = Some e \<Longrightarrow>
     e \<in> set rows \<and> doTimeSlotsOverlap (startTime e) (endTime e) st en"
  unfolding firstOverlapping_def by (rule find_SomeD)

lemma firstOverlapping_None:
  "(firstOverlapping st en rows = None) =
     (\<forall>e \<in> set rows. \<not> doTimeSlotsOverlap (startTime e) (endTime e) st en)"
  unfolding firstOverlapping_def by (auto simp: find_None_iff)

lemma valid_nonempty: "isValidTimeFormat t \<Longrightarrow> t \<noteq> []"
  by (auto simp: isValidTimeFormat_def matchesHHMM_def)

lemma dayOfWeekNamed_nonempty: "dayOfWeekNamed n = Some d \<Longrightarrow> n \<noteq> []"
  by (auto simp: dayOfWeekNamed_def)

text \<open>
  C3, as the code has it. The handler checks the teacher first. Take a request that
  passes validation, on a table whose stored times are \<open>HH:MM\<close> strings (as every slot
  written through the controllers is). If some stored slot other than the one being
  updated has the request's teacher as its \<open>teacherId\<close>, the same \<open>dayOfWeek\<close> and an
  overlapping time, the answer is the 409 "Teacher conflict" carrying such a slot,
  whether or not a class/section conflict exists as well, and the class/section query is
  not run. The 409 "Class/Section conflict" is the answer only when no such teacher slot
  exists and some stored slot of the same class, section and day overlaps. In both cases
  the database is unchanged.
\<close>

theorem teacher_conflict_reported_first:
  assumes "p_dayOfWeek body = Some dayName" and "dayOfWeekNamed dayName = Some day"
    and "p_startTime body = Some startT" and "p_endTime body = Some endT"
    and "isValidTimeFormat startT" and "isValidTimeFormat endT"
    and "timeToMinutes startT = Some a" and "timeToMinutes endT = Some b" and "a < b"
    and "p_currentClass body = Some cls" and "cls \<noteq> []"
    and "p_subject body = Some subj" and "subj \<noteq> []"
    and "\<forall>t. orNull (p_teacherId body) = Some t \<longrightarrow> findTeacher db t \<noteq> None"
    and "\<forall>r \<in> set (timetableSlots db).
           isValidTimeFormat (startTime r) \<and> isValidTimeFormat (endTime r)"
  shows "((\<exists>e \<in> set (timetableSlots db).
             teacherId e \<noteq> None \<and> teacherId e = orNull (p_teacherId body) \<and>
             dayOfWeek e = day \<and> notId (p_id body) e \<and>
             doTimeSlotsOverlap (startTime e) (endTime e) startT endT) \<longrightarrow>
          (\<exists>e'. createOrUpdateTimetableSlot parseDate db body =
                   (db, Json 409 (MsgSlot TeacherConflict e')) \<and>
                e' \<in> set (timetableSlots db) \<and> teacherId e' = orNull (p_teacherId body) \<and>
                dayOfWeek e' = day \<and>
                doTimeSlotsOverlap (startTime e') (endTime e') startT endT)) \<and>
         (\<not> (\<exists>e \<in> set (timetableSlots db).
             teacherId e \<noteq> None \<and> teacherId e = orNull (p_teacherId body) \<and>
             dayOfWeek e = day \<and> notId (p_id body) e \<and>
             doTimeSlotsOverlap (startTime e) (endTime e) startT endT) \<and>
          (\<exists>e \<in> set (timetableSlots db).
             currentClass e = cls \<and> slotSection e = orNull (p_section body) \<and>
             dayOfWeek e = day \<and> notId (p_id body) e \<and>
             doTimeSlotsOverlap (startTime e) (endTime e) startT endT) \<longrightarrow>
          (\<exists>e'. createOrUpdateTimetableSlot parseDate db body =
                   (db, Json 409 (MsgSlot ClassSectionConflict e')) \<and>
                e' \<in> set (timetableSlots db) \<and> currentClass e' = cls \<and>
                slotSection e' = orNull (p_section body) \<and> dayOfWeek e' = day \<and>
                doTimeSlotsOverlap (startTime e') (endTime e') startT endT))"
proof -
  have ne: "dayName \<noteq> []" "startT \<noteq> []" "endT \<noteq> []"
    using assms by (auto dest: valid_nonempty dayOfWeekNamed_nonempty)
  have idem: "orNull (orNull (p_section body)) = orNull (p_section body)"
    by (simp add: orNull_def truthy_def)
  define tc where "tc = (case orNull (p_teacherId body) of
                          None \<Rightarrow> None
                        | Some t \<Rightarrow>
                            firstOverlapping startT endT
                              (conflictingTeacherSlots db t day (p_id body)))"
  define cc where "cc = firstOverlapping startT endT
                              (conflictingClassSlots db cls (orNull (p_section body)) day (p_id body))"
  have run1: "\<And>e'. tc = Some e' \<Longrightarrow> createOrUpdateTimetableSlot parseDate db body =
      (db, Json 409 (MsgSlot TeacherConflict e'))"
  proof -
    fix e' assume t: "tc = Some e'"
    then obtain t' where o: "orNull (p_teacherId body) = Some t'"
      unfolding tc_def by (cases "orNull (p_teacherId body)") auto
    with t have f: "firstOverlapping startT endT (conflictingTeacherSlots db t' day (p_id body)) = Some e'"
      unfolding tc_def by simp
    from o assms(14) have ft: "findTeacher db t' \<noteq> None" by blast
    show "createOrUpdateTimetableSlot parseDate db body =
      (db, Json 409 (MsgSlot TeacherConflict e'))"
      using assms(1-13) ne o f ft unfolding createOrUpdateTimetableSlot_def
      by (simp add: truthy_def geqNumber_def Let_def)
  qed
  have run2: "\<And>e'. tc = None \<Longrightarrow> cc = Some e' \<Longrightarrow>
      createOrUpdateTimetableSlot parseDate db body =
      (db, Json 409 (MsgSlot ClassSectionConflict e'))"
  proof -
    fix e' assume t: "tc = None" and c: "cc = Some e'"
    show "createOrUpdateTimetableSlot parseDate db body =
      (db, Json 409 (MsgSlot ClassSectionConflict e'))"
    proof (cases "orNull (p_teacherId body)")
      case None
      then show ?thesis
        using assms(1-13) ne c unfolding createOrUpdateTimetableSlot_def cc_def
        by (simp add: truthy_def geqNumber_def Let_def)
    next
      case (Some t')
      with t have f: "firstOverlapping startT endT (conflictingTeacherSlots db t' day (p_id body)) = None"
        unfolding tc_def by simp
      from Some assms(14) have ft: "findTeacher db t' \<noteq> None" by blast
      show ?thesis
        using assms(1-13) ne c Some f ft unfolding createOrUpdateTimetableSlot_def cc_def
        by (simp add: truthy_def geqNumber_def Let_def)
    qed
  qed
  have tcSome: "\<And>e'. tc = Some e' \<Longrightarrow> e' \<in> set (timetableSlots db) \<and>
        teacherId e' = orNull (p_teacherId body) \<and> dayOfWeek e' = day \<and>
        doTimeSlotsOverlap (startTime e') (endTime e') startT endT"
    unfolding tc_def
    by (auto simp: conflictingTeacherSlots_def split: option.splits dest!: firstOverlapping_Some)
  have tcNone: "tc = None \<Longrightarrow> \<not> (\<exists>e \<in> set (timetableSlots db).
             teacherId e \<noteq> None \<and> teacherId e = orNull (p_teacherId body) \<and>
             dayOfWeek e = day \<and> notId (p_id body) e \<and>
             doTimeSlotsOverlap (startTime e) (endTime e) startT endT)"
    unfolding tc_def
    by (auto simp: conflictingTeacherSlots_def firstOverlapping_None split: option.splits)
  have ccSome: "\<And>e'. cc = Some e' \<Longrightarrow> e' \<in> set (timetableSlots db) \<and> currentClass e' = cls \<and>
                slotSection e' = orNull (p_section body) \<and> dayOfWeek e' = day \<and>
                doTimeSlotsOverlap (startTime e') (endTime e') startT endT"
    unfolding cc_def
    by (auto simp: conflictingClassSlots_def idem dest!: firstOverlapping_Some)
  have ccNone: "cc = None \<Longrightarrow> \<not> (\<exists>e \<in> set (timetableSlots db).
             currentClass e = cls \<and> slotSection e = orNull (p_section body) \<and>
             dayOfWeek e = day \<and> notId (p_id body) e \<and>
             doTimeSlotsOverlap (startTime e) (endTime e) startT endT)"
    unfolding cc_def
    by (auto simp: conflictingClassSlots_def idem firstOverlapping_None)
  show ?thesis
  proof (intro conjI impI)
    assume "\<exists>e \<in> set (timetableSlots db).
             teacherId e \<noteq> None \<and> teacherId e = orNull (p_teacherId body) \<and>
             dayOfWeek e = day \<and> notId (p_id body) e \<and>
             doTimeSlotsOverlap (startTime e) (endTime e) startT endT"
    with tcNone obtain e' where t: "tc = Some e'" by (cases tc) auto
    with run1 have "createOrUpdateTimetableSlot parseDate db body =
                   (db, Json 409 (MsgSlot TeacherConflict e'))" by simp
    with tcSome [OF t] show "\<exists>e'. createOrUpdateTimetableSlot parseDate db body =
                   (db, Json 409 (MsgSlot TeacherConflict e')) \<and>
                e' \<in> set (timetableSlots db) \<and> teacherId e' = orNull (p_teacherId body) \<and>
                dayOfWeek e' = day \<and>
                doTimeSlotsOverlap (startTime e') (endTime e') startT endT"
      by blast
  next
    assume h: "\<not> (\<exists>e \<in> set (timetableSlots db).
             teacherId e \<noteq> None \<and> teacherId e = orNull (p_teacherId body) \<and>
             dayOfWeek e = day \<and> notId (p_id body) e \<and>
             doTimeSlotsOverlap (startTime e) (endTime e) startT endT) \<and>
          (\<exists>e \<in> set (timetableSlots db).
             currentClass e = cls \<and> slotSection e = orNull (p_section body) \<and>
             dayOfWeek e = day \<and> notId (p_id body) e \<and>
             doTimeSlotsOverlap (startTime e) (endTime e) startT endT)"
    have t: "tc = None"
    proof (cases tc)
      case (Some e')
      have "notId (p_id body) e'"
        using Some unfolding tc_def
        by (auto simp: conflictingTeacherSlots_def split: option.splits dest!: firstOverlapping_Some)
      moreover have "teacherId e' \<noteq> None"
        using Some unfolding tc_def
        by (auto simp: conflictingTeacherSlots_def split: option.splits dest!: firstOverlapping_Some)
      ultimately show ?thesis using h tcSome [OF Some] by blast
    qed simp
    from h ccNone obtain e' where c: "cc = Some e'" by (cases cc) auto
    from run2 t c have "createOrUpdateTimetableSlot parseDate db body =
                   (db, Json 409 (MsgSlot ClassSectionConflict e'))" by simp
    with ccSome [OF c] show "\<exists>e'. createOrUpdateTimetableSlot parseDate db body =
                   (db, Json 409 (MsgSlot ClassSectionConflict e')) \<and>
                e' \<in> set (timetableSlots db) \<and> currentClass e' = cls \<and>
                slotSection e' = orNull (p_section body) \<and> dayOfWeek e' = day \<and>
                doTimeSlotsOverlap (startTime e') (endTime e') startT endT"
      by blast
  qed
qed

theorem teacher_conflict_reported_first_witness:
  "createOrUpdateTimetableSlot exParseDate exDbMaths physicsByT1 =
     (exDbMaths, Json 409 (MsgSlot TeacherConflict mathsMonday)) \<and>
   createOrUpdateTimetableSlot exParseDate exDbMaths physicsNoTeacher =
     (exDbMaths, Json 409 (MsgSlot ClassSectionConflict mathsMonday)) \<and>
   isValidTimeFormat ''09:30'' \<and> isValidTimeFormat ''10:30'' \<and>
   timeToMinutes ''09:30'' = Some 570 \<and> timeToMinutes ''10:30'' = Some 630 \<and>
   findTeacher exDbMaths ''t1'' \<noteq> None"
  using teacher_conflict_reported_first [of physicsByT1 "''MONDAY''" MONDAY "''09:30''"
      "''10:30''" 570 630 "''Grade10''" "''Physics''" exDbMaths exParseDate]
  by (simp add: createOrUpdateTimetableSlot_def notId_def firstOverlapping_def
      conflictingTeacherSlots_def conflictingClassSlots_def dayOfWeekNamed_def findTeacher_def
      truthy_def orNull_def Let_def
      exUsers_def mathsMonday_def exDbMaths_def physicsByT1_def physicsNoTeacher_def
      isValidTimeFormat_def matchesHHMM_def hoursMinutes_def Number_def isDigit_def
      digitValue_def timeToMinutes_def doTimeSlotsOverlap_def geqNumber_def)

text \<open>
  C3 as the claim states it fails: the stored Monday 09:00-10:00 Mathematics slot of
  Grade10 A, taught by t1, conflicts with the request for Monday 09:30-10:30 Physics in
  Grade10 A taught by t1 both as a class/section slot and as a teacher slot, and the
  conflict reported is the teacher conflict.
\<close>

theorem class_conflict_reported_first_counterexample:
  "mathsMonday \<in> set (timetableSlots exDbMaths) \<and>
   currentClass mathsMonday = ''Grade10'' \<and> slotSection mathsMonday = Some ''A'' \<and>
   dayOfWeek mathsMonday = MONDAY \<and> teacherId mathsMonday = Some ''t1'' \<and>
   doTimeSlotsOverlap (startTime mathsMonday) (endTime mathsMonday) ''09:30'' ''10:30'' \<and>
   createOrUpdateTimetableSlot exParseDate exDbMaths physicsByT1 =
     (exDbMaths, Json 409 (MsgSlot TeacherConflict mathsMonday)) \<and>
   createOrUpdateTimetableSlot exParseDate exDbMaths physicsByT1 \<noteq>
     (exDbMaths, Json 409 (MsgSlot ClassSectionConflict mathsMonday))"
  by (simp add: createOrUpdateTimetableSlot_def notId_def firstOverlapping_def
      conflictingTeacherSlots_def conflictingClassSlots_def dayOfWeekNamed_def findTeacher_def
      truthy_def orNull_def Let_def
      exUsers_def mathsMonday_def exDbMaths_def physicsByT1_def
      isValidTimeFormat_def matchesHHMM_def hoursMinutes_def Number_def isDigit_def
      digitValue_def timeToMinutes_def doTimeSlotsOverlap_def geqNumber_def)

text \<open>
  C2 at a concrete input. Teacher t1 is only the substitute of the stored Monday
  09:00-10:00 slot. A request for a Monday 09:30-10:30 slot of another class with t1 as
  primary teacher is answered 201 and the slot is stored: the teacher query of the
  handler reads \<open>teacherId\<close> only, where \<open>assignSubstituteTeacher\<close> reads both columns.
\<close>

theorem upsert_misses_substitute_commitment:
  "substituteTeacherId subOnlyMonday = Some ''t1'' \<and> teacherId subOnlyMonday = None \<and>
   doTimeSlotsOverlap (startTime subOnlyMonday) (endTime subOnlyMonday) ''09:30'' ''10:30'' \<and>
   createOrUpdateTimetableSlot exParseDate exDbSubOnly chemistryByT1 =
     (exDbSubOnly\<lparr>timetableSlots := [subOnlyMonday, chemistryCreated]\<rparr>,
      Json 201 (OneSlot chemistryCreated))"
  by (simp add: createOrUpdateTimetableSlot_def notId_def firstOverlapping_def
      conflictingTeacherSlots_def conflictingClassSlots_def dayOfWeekNamed_def findTeacher_def
      truthy_def orNull_def Let_def
      persistSlot_def createSlot_def newId_def newRow_def sameUniqueKey_def
      exUsers_def subOnlyMonday_def exDbSubOnly_def chemistryByT1_def chemistryCreated_def
      isValidTimeFormat_def matchesHHMM_def hoursMinutes_def Number_def isDigit_def
      digitValue_def timeToMinutes_def doTimeSlotsOverlap_def geqNumber_def)

theorem upsert_misses_substitute_commitment_witness:
  "snd (createOrUpdateTimetableSlot exParseDate exDbSubOnly chemistryByT1) =
     Json 201 (OneSlot chemistryCreated) \<and>
   timetableSlots (fst (createOrUpdateTimetableSlot exParseDate exDbSubOnly chemistryByT1)) =
     [subOnlyMonday, chemistryCreated]"
  using upsert_misses_substitute_commitment by simp

text \<open>
  C1 at concrete inputs. The handler's two conflict queries do not mention \<open>date\<close>: a
  weekly candidate that overlaps only a slot dated 2024-10-10, and a candidate dated
  2024-10-10 that overlaps only a weekly slot, are both answered 409 "Class/Section
  conflict".
\<close>

theorem upsert_conflict_across_date_scopes:
  "date alternateEarly = Some 1728518400000 \<and>
   createOrUpdateTimetableSlot exParseDate exDbDated weeklyPhysics =
     (exDbDated, Json 409 (MsgSlot ClassSectionConflict alternateEarly)) \<and>
   date regularThursday = None \<and>
   createOrUpdateTimetableSlot exParseDate exDbWeekly datedPhysics =
     (exDbWeekly, Json 409 (MsgSlot ClassSectionConflict regularThursday))"
  by (simp add: createOrUpdateTimetableSlot_def notId_def firstOverlapping_def
      conflictingTeacherSlots_def conflictingClassSlots_def dayOfWeekNamed_def findTeacher_def
      truthy_def orNull_def Let_def
      exUsers_def alternateEarly_def regularThursday_def exDbDated_def exDbWeekly_def
      weeklyPhysics_def datedPhysics_def
      isValidTimeFormat_def matchesHHMM_def hoursMinutes_def Number_def isDigit_def
      digitValue_def timeToMinutes_def doTimeSlotsOverlap_def geqNumber_def)

theorem upsert_conflict_across_date_scopes_witness:
  "snd (createOrUpdateTimetableSlot exParseDate exDbDated weeklyPhysics) =
     Json 409 (MsgSlot ClassSectionConflict alternateEarly) \<and>
   snd (createOrUpdateTimetableSlot exParseDate exDbWeekly datedPhysics) =
     Json 409 (MsgSlot ClassSectionConflict regularThursday)"
  using upsert_conflict_across_date_scopes by simp

text \<open>
  C7 at a concrete input. A request with \<open>dayOfWeek = MONDAY\<close> and
  \<open>date = 2024-07-26\<close> (a Friday) is answered 201, and the row stored has the date with
  the day of the week the caller sent.
\<close>

theorem upsert_stores_supplied_dayOfWeek:
  "createOrUpdateTimetableSlot exParseDate exDbEmpty specialEvent =
     (exDbEmpty\<lparr>timetableSlots := [specialEventStored]\<rparr>, Json 201 (OneSlot specialEventStored)) \<and>
   date specialEventStored = Some 1721952000000 \<and>
   dayOfWeek specialEventStored = MONDAY \<and>
   getDayOfWeekFromDate 1721952000000 = FRIDAY"
  by (simp add: createOrUpdateTimetableSlot_def notId_def firstOverlapping_def
      conflictingTeacherSlots_def conflictingClassSlots_def dayOfWeekNamed_def findTeacher_def
      truthy_def orNull_def Let_def
      persistSlot_def createSlot_def newId_def newRow_def sameUniqueKey_def
      exUsers_def exParseDate_def exDbEmpty_def specialEvent_def specialEventStored_def
      isValidTimeFormat_def matchesHHMM_def hoursMinutes_def Number_def isDigit_def
      digitValue_def timeToMinutes_def doTimeSlotsOverlap_def geqNumber_def
      msPerDay_def getUTCDay_def getDayOfWeekFromDate_def utcMidnight_def daysYear0_def
      daysYear100_def)

theorem upsert_stores_supplied_dayOfWeek_witness:
  "timetableSlots (fst (createOrUpdateTimetableSlot exParseDate exDbEmpty specialEvent)) =
     [specialEventStored] \<and>
   dayOfWeek specialEventStored \<noteq> getDayOfWeekFromDate 1721952000000"
  using upsert_stores_supplied_dayOfWeek by simp

section \<open>Alternate-day scheduler: atomic full replace\<close>

lemma createSlot_Inl: "createSlot db d = Inl e \<Longrightarrow> e = P2002"
  by (auto simp: createSlot_def Let_def split: if_splits)

lemma createSlot_Inr:
  "createSlot db d = Inr (db', row) \<Longrightarrow>
     users db' = users db \<and> timetableSlots db' = timetableSlots db @ [row] \<and>
     row = newRow (slotId row) d"
  by (auto simp: createSlot_def Let_def newRow_def split: if_splits)

lemma validateAlternateSlots_Inr:
  "validateAlternateSlots db day d inputs = Inr checked \<Longrightarrow>
     checked = map (checkedSlotData day d) inputs \<and>
     (\<forall>x \<in> set inputs. validateAlternateSlot db x = None)"
  by (induction inputs arbitrary: checked) (auto split: option.splits sum.splits)

lemma validateAlternateSlots_pass:
  "\<forall>x \<in> set inputs. validateAlternateSlot db x = None \<Longrightarrow>
     validateAlternateSlots db day d inputs = Inr (map (checkedSlotData day d) inputs)"
  by (induction inputs) auto

lemma createAlternateSlots_Inr:
  "createAlternateSlots alls rest tx acc = Inr (tx', created) \<Longrightarrow>
     \<exists>new. users tx' = users tx \<and> timetableSlots tx' = timetableSlots tx @ new \<and>
           created = acc @ new \<and>
           list_all2 (\<lambda>p r. r = newRow (slotId r) (snd p)) rest new"
proof (induction rest arbitrary: tx acc)
  case Nil
  then show ?case by simp
next
  case (Cons p rest)
  obtain i d where p: "p = (i, d)" by (cases p)
  from Cons.prems p obtain tx1 row where
    c: "createSlot tx d = Inr (tx1, row)"
    and r: "createAlternateSlots alls rest tx1 (acc @ [row]) = Inr (tx', created)"
    by (auto split: if_splits sum.splits PrismaError.splits)
  from Cons.IH [OF r] obtain new where
    n: "users tx' = users tx1" "timetableSlots tx' = timetableSlots tx1 @ new"
    "created = (acc @ [row]) @ new"
    "list_all2 (\<lambda>p r. r = newRow (slotId r) (snd p)) rest new"
    by blast
  from createSlot_Inr [OF c] n p show ?case
    by (intro exI [of _ "row # new"]) simp
qed

lemma createAlternateSlots_conflict:
  "\<exists>p \<in> set rest. teacherConflictInPayload alls (fst p) (snd p) \<noteq> [] \<or>
                    classConflictInPayload alls (fst p) (snd p) \<noteq> [] \<Longrightarrow>
     \<exists>m. createAlternateSlots alls rest tx acc = Inl (Json 409 (Msg m))"
proof (induction rest arbitrary: tx acc)
  case Nil
  then show ?case by simp
next
  case (Cons p rest)
  obtain i d where p: "p = (i, d)" by (cases p)
  show ?case
  proof (cases "teacherConflictInPayload alls i d \<noteq> [] \<or> classConflictInPayload alls i d \<noteq> []")
    case True
    then show ?thesis using p by auto
  next
    case False
    with Cons.prems p have rest: "\<exists>p \<in> set rest. teacherConflictInPayload alls (fst p) (snd p) \<noteq> [] \<or>
                    classConflictInPayload alls (fst p) (snd p) \<noteq> []"
      by auto
    show ?thesis
    proof (cases "createSlot tx d")
      case (Inl e)
      with createSlot_Inl [OF Inl] False p show ?thesis by simp
    next
      case (Inr q)
      obtain tx1 row where q: "q = (tx1, row)" by (cases q)
      from Cons.IH [OF rest, of tx1 "acc @ [row]"] Inr q False p show ?thesis by simp
    qed
  qed
qed

lemma createAlternateSlots_Inl:
  "createAlternateSlots alls rest tx acc = Inl r \<Longrightarrow> r = NextError \<or> (\<exists>m. r = Json 409 (Msg m))"
proof (induction rest arbitrary: tx acc)
  case Nil
  then show ?case by simp
next
  case (Cons p rest)
  obtain i d where p: "p = (i, d)" by (cases p)
  from Cons.prems p Cons.IH show ?case
    by (auto split: if_splits sum.splits PrismaError.splits)
qed

lemma setAlternateTimetable_failure:
  "setAlternateTimetable parseDate db body = (db', resp) \<Longrightarrow>
     \<forall>created. resp \<noteq> Json 201 (MsgSlots AlternateTimetableSet created) \<Longrightarrow> db' = db"
  by (auto simp: setAlternateTimetable_def Let_def split: if_splits option.splits sum.splits)


lemma validateAlternateSlot_None:
  "validateAlternateSlot db x = None \<Longrightarrow>
     a_startTime x = Some (the (a_startTime x)) \<and> a_endTime x = Some (the (a_endTime x)) \<and>
     a_currentClass x = Some (the (a_currentClass x)) \<and> a_subject x = Some (the (a_subject x))"
  by (auto simp: validateAlternateSlot_def truthy_def split: if_splits option.splits)

lemma setAlternateTimetable_success:
  assumes "setAlternateTimetable parseDate db body =
             (db', Json 201 (MsgSlots AlternateTimetableSet created))"
  shows "\<exists>dateString alternateDate inputs.
          ap_date body = Some dateString \<and> parseDate dateString = Some alternateDate \<and>
          ap_slots body = Some inputs \<and>
          users db' = users db \<and>
          filter (\<lambda>r. date r \<noteq> Some (utcMidnight alternateDate)) (timetableSlots db') =
            filter (\<lambda>r. date r \<noteq> Some (utcMidnight alternateDate)) (timetableSlots db) \<and>
          filter (\<lambda>r. date r = Some (utcMidnight alternateDate)) (timetableSlots db') = created \<and>
          list_all2 (\<lambda>x r. a_startTime x = Some (startTime r) \<and> a_endTime x = Some (endTime r) \<and>
                           a_currentClass x = Some (currentClass r) \<and>
                           a_subject x = Some (subject r) \<and>
                           slotSection r = orNull (a_section x) \<and>
                           teacherId r = orNull (a_teacherId x) \<and>
                           substituteTeacherId r = None \<and>
                           dayOfWeek r = getDayOfWeekFromDate (utcMidnight alternateDate) \<and>
                           date r = Some (utcMidnight alternateDate)) inputs created"
proof -
  from assms obtain dateString inputs where
    b: "ap_date body = Some dateString" "ap_slots body = Some inputs"
    by (auto simp: setAlternateTimetable_def truthy_def split: if_splits option.splits)
  from assms b obtain alternateDate where pd: "parseDate dateString = Some alternateDate"
    by (auto simp: setAlternateTimetable_def truthy_def Let_def split: if_splits option.splits)
  define D where "D = utcMidnight alternateDate"
  define day where "day = getDayOfWeekFromDate D"
  from assms b pd obtain checked where
    v: "validateAlternateSlots db day D inputs = Inr checked"
    and c: "createAlternateSlots checked (enumerate 0 checked) (deleteManyByDate db D) [] =
              Inr (db', created)"
    unfolding D_def day_def
    by (auto simp: setAlternateTimetable_def truthy_def Let_def
        split: if_splits option.splits sum.splits dest: createAlternateSlots_Inl)
  from validateAlternateSlots_Inr [OF v] have
    ch: "checked = map (checkedSlotData day D) inputs"
    and ok: "\<forall>x \<in> set inputs. validateAlternateSlot db x = None"
    by auto
  from createAlternateSlots_Inr [OF c] have
    u: "users db' = users db"
    and rows: "timetableSlots db' = filter (\<lambda>r. date r \<noteq> Some D) (timetableSlots db) @ created"
    and rel: "list_all2 (\<lambda>p r. r = newRow (slotId r) (snd p)) (enumerate 0 checked) created"
    by (auto simp: deleteManyByDate_def)
  have "list_all2 (\<lambda>d r. r = newRow (slotId r) d) checked created"
    using rel list_all2_map1 [of "\<lambda>d r. r = newRow (slotId r) d" snd "enumerate 0 checked" created]
    by simp
  then have rel2: "list_all2 (\<lambda>x r. r = newRow (slotId r) (checkedSlotData day D x)) inputs created"
    by (simp add: ch list_all2_map1)
  have rel3: "list_all2 (\<lambda>x r. a_startTime x = Some (startTime r) \<and> a_endTime x = Some (endTime r) \<and>
                           a_currentClass x = Some (currentClass r) \<and>
                           a_subject x = Some (subject r) \<and>
                           slotSection r = orNull (a_section x) \<and>
                           teacherId r = orNull (a_teacherId x) \<and>
                           substituteTeacherId r = None \<and>
                           dayOfWeek r = day \<and> date r = Some D) inputs created"
  proof (rule list.rel_mono_strong [OF rel2])
    fix x r assume x: "x \<in> set inputs" and r: "r = newRow (slotId r) (checkedSlotData day D x)"
    from ok x have n: "validateAlternateSlot db x = None" by blast
    have f: "startTime r = the (a_startTime x)" "endTime r = the (a_endTime x)"
      "currentClass r = the (a_currentClass x)" "subject r = the (a_subject x)"
      "slotSection r = orNull (a_section x)" "teacherId r = orNull (a_teacherId x)"
      "substituteTeacherId r = None" "dayOfWeek r = day" "date r = Some D"
      by (subst r, simp add: newRow_def checkedSlotData_def)+
    show "a_startTime x = Some (startTime r) \<and> a_endTime x = Some (endTime r) \<and>
                           a_currentClass x = Some (currentClass r) \<and>
                           a_subject x = Some (subject r) \<and>
                           slotSection r = orNull (a_section x) \<and>
                           teacherId r = orNull (a_teacherId x) \<and>
                           substituteTeacherId r = None \<and>
                           dayOfWeek r = day \<and> date r = Some D"
      using validateAlternateSlot_None [OF n] f by simp
  qed
  have dated: "\<forall>r \<in> set created. date r = Some D"
    using rel3 by (auto simp: list_all2_conv_all_nth in_set_conv_nth)
  have f1: "filter (\<lambda>r. date r \<noteq> Some D) (timetableSlots db') =
            filter (\<lambda>r. date r \<noteq> Some D) (timetableSlots db)"
    using dated by (simp add: rows filter_empty_conv)
  have f2: "filter (\<lambda>r. date r = Some D) (timetableSlots db') = created"
    using dated by (simp add: rows filter_empty_conv filter_id_conv)
  show ?thesis
    using b pd u f1 f2 rel3 unfolding D_def day_def by blast
qed

lemma setAlternateTimetable_conflict:
  assumes run: "setAlternateTimetable parseDate db body = (db', resp)"
    and b: "ap_date body = Some dateString" "parseDate dateString = Some alternateDate"
      "length dateString = 10" "matchesYMD dateString" "ap_slots body = Some inputs"
    and ok: "\<forall>x \<in> set inputs. validateAlternateSlot db x = None"
    and ij: "i < length inputs" "j < length inputs" "i \<noteq> j"
    and share: "(orNull (a_teacherId (inputs ! i)) \<noteq> None \<and>
                 orNull (a_teacherId (inputs ! i)) = orNull (a_teacherId (inputs ! j))) \<or>
                (a_currentClass (inputs ! i) = a_currentClass (inputs ! j) \<and>
                 orNull (a_section (inputs ! i)) = orNull (a_section (inputs ! j)))"
    and ov: "a_startTime (inputs ! i) = Some si" "a_endTime (inputs ! i) = Some ei"
      "a_startTime (inputs ! j) = Some sj" "a_endTime (inputs ! j) = Some ej"
      "doTimeSlotsOverlap si ei sj ej"
  shows "(\<exists>m. resp = Json 409 (Msg m)) \<and> db' = db"
proof -
  define D where "D = utcMidnight alternateDate"
  define day where "day = getDayOfWeekFromDate D"
  define checked where "checked = map (checkedSlotData day D) inputs"
  have v: "validateAlternateSlots db day D inputs = Inr checked"
    unfolding checked_def using ok by (rule validateAlternateSlots_pass)
  have len: "i < length checked" "j < length checked"
    using ij by (simp_all add: checked_def)
  have ci: "checked ! i = checkedSlotData day D (inputs ! i)"
    and cj: "checked ! j = checkedSlotData day D (inputs ! j)"
    using ij by (simp_all add: checked_def)
  have mi: "(i, checked ! i) \<in> set (enumerate 0 checked)"
    and mj: "(j, checked ! j) \<in> set (enumerate 0 checked)"
    using len by (simp_all add: in_set_enumerate_eq)
  have tr: "orNull x \<noteq> None \<Longrightarrow> truthy (orNull x)" for x
    by (auto simp: orNull_def split: if_splits)
  have idem: "orNull (orNull x) = orNull x" for x
    by (simp add: orNull_def truthy_def)
  have "teacherConflictInPayload checked j (checked ! j) \<noteq> [] \<or>
        classConflictInPayload checked j (checked ! j) \<noteq> []"
  proof -
    from share show ?thesis
    proof
      assume t: "orNull (a_teacherId (inputs ! i)) \<noteq> None \<and>
                 orNull (a_teacherId (inputs ! i)) = orNull (a_teacherId (inputs ! j))"
      from t have "orNull (a_teacherId (inputs ! i)) \<noteq> None" ..
      then have ti: "truthy (orNull (a_teacherId (inputs ! i)))" by (rule tr)
      from t have "orNull (a_teacherId (inputs ! i)) = orNull (a_teacherId (inputs ! j))" ..
      with ti have tj: "truthy (orNull (a_teacherId (inputs ! j)))" by simp
      have "(i, checked ! i) \<in> set (teacherConflictInPayload checked j (checked ! j))"
        unfolding teacherConflictInPayload_def
        using mi t ij(3) ov ti tj
        by (simp add: ci cj checkedSlotData_def)
      then show ?thesis by auto
    next
      assume t: "a_currentClass (inputs ! i) = a_currentClass (inputs ! j) \<and>
                 orNull (a_section (inputs ! i)) = orNull (a_section (inputs ! j))"
      have "(i, checked ! i) \<in> set (classConflictInPayload checked j (checked ! j))"
        unfolding classConflictInPayload_def
        using mi t ij(3) ov
        by (simp add: ci cj checkedSlotData_def idem)
      then show ?thesis by auto
    qed
  qed
  with mj have "\<exists>p \<in> set (enumerate 0 checked).
      teacherConflictInPayload checked (fst p) (snd p) \<noteq> [] \<or>
      classConflictInPayload checked (fst p) (snd p) \<noteq> []"
    by force
  from createAlternateSlots_conflict [OF this, of "deleteManyByDate db D" "[]"]
  obtain m where "createAlternateSlots checked (enumerate 0 checked) (deleteManyByDate db D) [] =
      Inl (Json 409 (Msg m))"
    by blast
  moreover have "dateString \<noteq> []"
    using b(3) by auto
  ultimately show ?thesis
    using run b v unfolding D_def day_def
    by (auto simp: setAlternateTimetable_def truthy_def Let_def)
qed


text \<open>
  C4. For any call of \<open>setAlternateTimetable\<close>, the target date being the day the
  handler normalises the request's date to (\<open>utcMidnight\<close>):
  \<^item> unless the answer is the 201, the database after the call is the database before it
    (no partial writes: the \<open>deleteMany\<close> and the creates made before a failure are
    rolled back with the transaction);
  \<^item> when the answer is the 201, the users and every slot whose date is not the target
    date are as before, and the slots stored with the target date are exactly the created
    slots, one per submitted input, in order, with the input's times, class, section,
    subject and teacher, no substitute, the target date and the day of the week derived
    from it; so whatever was stored for that date before the call (an earlier batch
    included) is gone;
  \<^item> when the date is well formed, every input passes the validation loop, and two inputs
    at different positions overlap in time and share a (non-null) teacher or share class
    and section, the answer is a 409 and the database is unchanged.
\<close>

theorem alternate_timetable_full_replace:
  assumes "setAlternateTimetable parseDate db body = (db', resp)"
  shows "((\<forall>created. resp \<noteq> Json 201 (MsgSlots AlternateTimetableSet created)) \<longrightarrow> db' = db) \<and>
         (\<forall>created. resp = Json 201 (MsgSlots AlternateTimetableSet created) \<longrightarrow>
            (\<exists>dateString alternateDate inputs.
               ap_date body = Some dateString \<and> parseDate dateString = Some alternateDate \<and>
               ap_slots body = Some inputs \<and>
               users db' = users db \<and>
               filter (\<lambda>r. date r \<noteq> Some (utcMidnight alternateDate)) (timetableSlots db') =
                 filter (\<lambda>r. date r \<noteq> Some (utcMidnight alternateDate)) (timetableSlots db) \<and>
               filter (\<lambda>r. date r = Some (utcMidnight alternateDate)) (timetableSlots db') =
                 created \<and>
               list_all2
                 (\<lambda>x r. a_startTime x = Some (startTime r) \<and> a_endTime x = Some (endTime r) \<and>
                         a_currentClass x = Some (currentClass r) \<and>
                         a_subject x = Some (subject r) \<and>
                         slotSection r = orNull (a_section x) \<and>
                         teacherId r = orNull (a_teacherId x) \<and>
                         substituteTeacherId r = None \<and>
                         dayOfWeek r = getDayOfWeekFromDate (utcMidnight alternateDate) \<and>
                         date r = Some (utcMidnight alternateDate)) inputs created)) \<and>
         (\<forall>dateString alternateDate inputs i j si ei sj ej.
            ap_date body = Some dateString \<and> parseDate dateString = Some alternateDate \<and>
            length dateString = 10 \<and> matchesYMD dateString \<and> ap_slots body = Some inputs \<and>
            (\<forall>x \<in> set inputs. validateAlternateSlot db x = None) \<and>
            i < length inputs \<and> j < length inputs \<and> i \<noteq> j \<and>
            ((orNull (a_teacherId (inputs ! i)) \<noteq> None \<and>
              orNull (a_teacherId (inputs ! i)) = orNull (a_teacherId (inputs ! j))) \<or>
             (a_currentClass (inputs ! i) = a_currentClass (inputs ! j) \<and>
              orNull (a_section (inputs ! i)) = orNull (a_section (inputs ! j)))) \<and>
            a_startTime (inputs ! i) = Some si \<and> a_endTime (inputs ! i) = Some ei \<and>
            a_startTime (inputs ! j) = Some sj \<and> a_endTime (inputs ! j) = Some ej \<and>
            doTimeSlotsOverlap si ei sj ej \<longrightarrow>
            (\<exists>m. resp = Json 409 (Msg m)) \<and> db' = db)"
proof (intro conjI)
  show "(\<forall>created. resp \<noteq> Json 201 (MsgSlots AlternateTimetableSet created)) \<longrightarrow> db' = db"
    using setAlternateTimetable_failure [OF assms] by blast
next
  show "\<forall>created. resp = Json 201 (MsgSlots AlternateTimetableSet created) \<longrightarrow>
            (\<exists>dateString alternateDate inputs.
               ap_date body = Some dateString \<and> parseDate dateString = Some alternateDate \<and>
               ap_slots body = Some inputs \<and>
               users db' = users db \<and>
               filter (\<lambda>r. date r \<noteq> Some (utcMidnight alternateDate)) (timetableSlots db') =
                 filter (\<lambda>r. date r \<noteq> Some (utcMidnight alternateDate)) (timetableSlots db) \<and>
               filter (\<lambda>r. date r = Some (utcMidnight alternateDate)) (timetableSlots db') =
                 created \<and>
               list_all2
                 (\<lambda>x r. a_startTime x = Some (startTime r) \<and> a_endTime x = Some (endTime r) \<and>
                         a_currentClass x = Some (currentClass r) \<and>
                         a_subject x = Some (subject r) \<and>
                         slotSection r = orNull (a_section x) \<and>
                         teacherId r = orNull (a_teacherId x) \<and>
                         substituteTeacherId r = None \<and>
                         dayOfWeek r = getDayOfWeekFromDate (utcMidnight alternateDate) \<and>
                         date r = Some (utcMidnight alternateDate)) inputs created)"
  proof (intro allI impI)
    fix created
    assume "resp = Json 201 (MsgSlots AlternateTimetableSet created)"
    with assms have "setAlternateTimetable parseDate db body =
        (db', Json 201 (MsgSlots AlternateTimetableSet created))"
      by simp
    then show "\<exists>dateString alternateDate inputs.
               ap_date body = Some dateString \<and> parseDate dateString = Some alternateDate \<and>
               ap_slots body = Some inputs \<and>
               users db' = users db \<and>
               filter (\<lambda>r. date r \<noteq> Some (utcMidnight alternateDate)) (timetableSlots db') =
                 filter (\<lambda>r. date r \<noteq> Some (utcMidnight alternateDate)) (timetableSlots db) \<and>
               filter (\<lambda>r. date r = Some (utcMidnight alternateDate)) (timetableSlots db') =
                 created \<and>
               list_all2
                 (\<lambda>x r. a_startTime x = Some (startTime r) \<and> a_endTime x = Some (endTime r) \<and>
                         a_currentClass x = Some (currentClass r) \<and>
                         a_subject x = Some (subject r) \<and>
                         slotSection r = orNull (a_section x) \<and>
                         teacherId r = orNull (a_teacherId x) \<and>
                         substituteTeacherId r = None \<and>
                         dayOfWeek r = getDayOfWeekFromDate (utcMidnight alternateDate) \<and>
                         date r = Some (utcMidnight alternateDate)) inputs created"
      by (rule setAlternateTimetable_success)
  qed
next
  show "\<forall>dateString alternateDate inputs i j si ei sj ej.
            ap_date body = Some dateString \<and> parseDate dateString = Some alternateDate \<and>
            length dateString = 10 \<and> matchesYMD dateString \<and> ap_slots body = Some inputs \<and>
            (\<forall>x \<in> set inputs. validateAlternateSlot db x = None) \<and>
            i < length inputs \<and> j < length inputs \<and> i \<noteq> j \<and>
            ((orNull (a_teacherId (inputs ! i)) \<noteq> None \<and>
              orNull (a_teacherId (inputs ! i)) = orNull (a_teacherId (inputs ! j))) \<or>
             (a_currentClass (inputs ! i) = a_currentClass (inputs ! j) \<and>
              orNull (a_section (inputs ! i)) = orNull (a_section (inputs ! j)))) \<and>
            a_startTime (inputs ! i) = Some si \<and> a_endTime (inputs ! i) = Some ei \<and>
            a_startTime (inputs ! j) = Some sj \<and> a_endTime (inputs ! j) = Some ej \<and>
            doTimeSlotsOverlap si ei sj ej \<longrightarrow>
            (\<exists>m. resp = Json 409 (Msg m)) \<and> db' = db"
  proof (intro allI impI, elim conjE)
    fix dateString alternateDate inputs i j si ei sj ej
    assume "ap_date body = Some dateString" "parseDate dateString = Some alternateDate"
      "length dateString = 10" "matchesYMD dateString" "ap_slots body = Some inputs"
      "\<forall>x \<in> set inputs. validateAlternateSlot db x = None"
      "i < length inputs" "j < length inputs" "i \<noteq> j"
      "(orNull (a_teacherId (inputs ! i)) \<noteq> None \<and>
              orNull (a_teacherId (inputs ! i)) = orNull (a_teacherId (inputs ! j))) \<or>
             (a_currentClass (inputs ! i) = a_currentClass (inputs ! j) \<and>
              orNull (a_section (inputs ! i)) = orNull (a_section (inputs ! j)))"
      "a_startTime (inputs ! i) = Some si" "a_endTime (inputs ! i) = Some ei"
      "a_startTime (inputs ! j) = Some sj" "a_endTime (inputs ! j) = Some ej"
      "doTimeSlotsOverlap si ei sj ej"
    then show "(\<exists>m. resp = Json 409 (Msg m)) \<and> db' = db"
      by (rule setAlternateTimetable_conflict [OF assms])
  qed
qed

theorem alternate_timetable_full_replace_witness:
  "setAlternateTimetable exParseDate exDbAlternate
     \<lparr>ap_date = Some ''2024-09-05'', ap_slots = Some [examPrep1, examPrep2]\<rparr> =
     (exDbAlternate\<lparr>timetableSlots := [regularThursday, examPrep1Row, examPrep2Row]\<rparr>,
      Json 201 (MsgSlots AlternateTimetableSet [examPrep1Row, examPrep2Row])) \<and>
   setAlternateTimetable exParseDate
     (exDbAlternate\<lparr>timetableSlots := [regularThursday, examPrep1Row, examPrep2Row]\<rparr>)
     \<lparr>ap_date = Some ''2024-09-05'', ap_slots = Some [revisedPrep]\<rparr> =
     (exDbAlternate\<lparr>timetableSlots := [regularThursday, revisedPrepRow]\<rparr>,
      Json 201 (MsgSlots AlternateTimetableSet [revisedPrepRow])) \<and>
   setAlternateTimetable exParseDate exDbAlternate
     \<lparr>ap_date = Some ''2024-09-05'', ap_slots = Some [clashA, clashB]\<rparr> =
     (exDbAlternate, Json 409 (Msg TeacherConflictWithin))"
  using alternate_timetable_full_replace [of exParseDate exDbAlternate
      "\<lparr>ap_date = Some ''2024-09-05'', ap_slots = Some [clashA, clashB]\<rparr>"
      exDbAlternate "Json 409 (Msg TeacherConflictWithin)"]
  by (simp add: setAlternateTimetable_def matchesYMD_def validateAlternateSlot_def
      checkedSlotData_def teacherConflictInPayload_def classConflictInPayload_def
      enumerate_eq_zip deleteManyByDate_def createSlot_def newId_def newRow_def
      sameUniqueKey_def findTeacher_def truthy_def orNull_def Let_def
      exUsers_def exParseDate_def regularThursday_def oldAlternate_def exDbAlternate_def
      examPrep1_def examPrep2_def revisedPrep_def clashA_def clashB_def examPrep1Row_def
      examPrep2Row_def revisedPrepRow_def
      isValidTimeFormat_def matchesHHMM_def hoursMinutes_def Number_def isDigit_def
      digitValue_def timeToMinutes_def doTimeSlotsOverlap_def geqNumber_def
      msPerDay_def getUTCDay_def getDayOfWeekFromDate_def utcMidnight_def daysYear0_def
      daysYear100_def)

end
